theory Spec2Isabelle
  imports Complex_Main
begin

section \<open>The document\<close>

text \<open>
  The two scripts js/includes.js and js/main.js run against a browser document. The
  document is kept as the list of its elements in document order. Every element has a
  reference (the identity of the node object, which a closure can capture) and carries
  the references of its ancestors, nearest first. Only what the scripts read or write
  is kept: the local name, the class list, the attributes, the text, three layout
  numbers and four inline style properties.
\<close>

type_synonym node_ref = nat

record element =
  localName :: string
  classList :: "string list"
  attributes :: "(string \<times> string) list"
  ancestors :: "node_ref list"
  textContent :: string
  offsetTop :: int
  offsetHeight :: int
  clientHeight :: int
  style_opacity :: string
  style_transform :: string
  style_transition :: string
  style_cursor :: string

type_synonym node = "node_ref \<times> element"

type_synonym dom = "node list"

text \<open>
  Markup text (the body of a fetched fragment, the value assigned to \<open>innerHTML\<close>) is
  represented by the nodes the HTML parser builds from it: a list in document order
  whose references and ancestor lists are local to the fragment.
\<close>

type_synonym html = "node list"

definition getAttribute :: "element \<Rightarrow> string \<Rightarrow> string option" where
  "getAttribute e a = map_of (attributes e) a"

subsection \<open>Selectors\<close>

text \<open>
  The selector strings of the scripts, as syntax trees. A compound selector is a list of
  simple selectors that must all match; a complex selector is a list of compounds
  joined by the descendant combinator, the subject last; a selector list is a comma
  separated list of complex selectors.
\<close>

datatype simple_selector =
    TypeSel string
  | ClassSel string
  | AttrSel string
  | AttrEqSel string string
  | AttrPrefixSel string string

type_synonym compound_selector = "simple_selector list"
type_synonym complex_selector = "compound_selector list"
type_synonym selector = "complex_selector list"

fun matches_simple :: "element \<Rightarrow> simple_selector \<Rightarrow> bool" where
  "matches_simple e (TypeSel t) = (localName e = t)"
| "matches_simple e (ClassSel c) = (c \<in> set (classList e))"
| "matches_simple e (AttrSel a) = (getAttribute e a \<noteq> None)"
| "matches_simple e (AttrEqSel a v) = (getAttribute e a = Some v)"
| "matches_simple e (AttrPrefixSel a v) =
     (case getAttribute e a of
        None \<Rightarrow> False
      | Some x \<Rightarrow> v \<noteq> [] \<and> take (length v) x = v)"

definition matches_compound :: "element \<Rightarrow> compound_selector \<Rightarrow> bool" where
  "matches_compound e c = list_all (matches_simple e) c"

text \<open>
  \<open>matches_ancestors d cs as\<close>: the compounds \<open>cs\<close> (innermost first) are matched by
  ancestors taken from \<open>as\<close> (nearest first) in this order.
\<close>

fun matches_ancestors :: "dom \<Rightarrow> compound_selector list \<Rightarrow> node_ref list \<Rightarrow> bool" where
  "matches_ancestors d [] as = True"
| "matches_ancestors d (c # cs) [] = False"
| "matches_ancestors d (c # cs) (a # as) =
     ((case map_of d a of
         None \<Rightarrow> False
       | Some e \<Rightarrow> matches_compound e c \<and> matches_ancestors d cs as)
      \<or> matches_ancestors d (c # cs) as)"

definition matches_complex :: "dom \<Rightarrow> element \<Rightarrow> complex_selector \<Rightarrow> bool" where
  "matches_complex d e cx =
     (case rev cx of
        [] \<Rightarrow> False
      | c # cs \<Rightarrow> matches_compound e c \<and> matches_ancestors d cs (ancestors e))"

definition matches :: "dom \<Rightarrow> selector \<Rightarrow> node \<Rightarrow> bool" where
  "matches d sel n = list_ex (matches_complex d (snd n)) sel"

definition querySelectorAll :: "dom \<Rightarrow> selector \<Rightarrow> node list" where
  "querySelectorAll d sel = filter (matches d sel) d"

definition querySelector :: "dom \<Rightarrow> selector \<Rightarrow> node option" where
  "querySelector d sel = find (matches d sel) d"

text \<open>\<open>element.querySelector\<close>: the first match among the descendants of \<open>r\<close>.\<close>

definition querySelector_in :: "dom \<Rightarrow> node_ref \<Rightarrow> selector \<Rightarrow> node option" where
  "querySelector_in d r sel = find (\<lambda>n. r \<in> set (ancestors (snd n)) \<and> matches d sel n) d"

text \<open>\<open>element.closest\<close>: the element itself or its nearest ancestor that matches.\<close>

fun first_match :: "dom \<Rightarrow> selector \<Rightarrow> node_ref list \<Rightarrow> node option" where
  "first_match d sel [] = None"
| "first_match d sel (r # rs) =
     (case map_of d r of
        None \<Rightarrow> first_match d sel rs
      | Some e \<Rightarrow> if matches d sel (r, e) then Some (r, e) else first_match d sel rs)"

definition closest :: "dom \<Rightarrow> node_ref \<Rightarrow> selector \<Rightarrow> node option" where
  "closest d r sel =
     (case map_of d r of
        None \<Rightarrow> None
      | Some e \<Rightarrow> first_match d sel (r # ancestors e))"

text \<open>The selectors that occur in the two scripts.\<close>

definition sel_hamburger :: selector where
  "sel_hamburger = [[[ClassSel ''hamburger'']]]"

definition sel_nav_menu :: selector where
  "sel_nav_menu = [[[ClassSel ''nav-menu'']]]"

definition sel_nav_menu_a :: selector where
  "sel_nav_menu_a = [[[ClassSel ''nav-menu''], [TypeSel ''a'']]]"

definition sel_header :: selector where
  "sel_header = [[[ClassSel ''header'']]]"

definition sel_section_id :: selector where
  "sel_section_id = [[[TypeSel ''section'', AttrSel ''id'']]]"

definition sel_nav_menu_a_hash :: selector where
  "sel_nav_menu_a_hash = [[[ClassSel ''nav-menu''], [TypeSel ''a'', AttrPrefixSel ''href'' ''#'']]]"

definition sel_learn_more :: selector where
  "sel_learn_more = [[[ClassSel ''learn-more'']]]"

definition sel_scenario_card :: selector where
  "sel_scenario_card = [[[ClassSel ''scenario-card'']]]"

definition sel_timeline_item :: selector where
  "sel_timeline_item = [[[ClassSel ''timeline-item'']]]"

definition sel_animated :: selector where
  "sel_animated =
     [[[ClassSel ''scenario-card'']], [[ClassSel ''timeline-item'']], [[ClassSel ''resource-item'']]]"

definition sel_h3 :: selector where
  "sel_h3 = [[[TypeSel ''h3'']]]"

definition sel_h4 :: selector where
  "sel_h4 = [[[TypeSel ''h4'']]]"

definition sel_include :: "string \<Rightarrow> selector" where
  "sel_include name = [[[AttrEqSel ''data-include'' name]]]"

subsection \<open>Writing to the document\<close>

text \<open>
  A write through a reference changes the element of that reference. A node that has
  left the document still exists for the closure that holds it, but nothing reads it
  any more: writing through its reference leaves the document as it is.
\<close>

definition update_element :: "node_ref \<Rightarrow> (element \<Rightarrow> element) \<Rightarrow> dom \<Rightarrow> dom" where
  "update_element r f d = map (\<lambda>n. if fst n = r then (fst n, f (snd n)) else n) d"

definition token_add :: "string \<Rightarrow> string list \<Rightarrow> string list" where
  "token_add c cl = (if c \<in> set cl then cl else cl @ [c])"

definition token_remove :: "string \<Rightarrow> string list \<Rightarrow> string list" where
  "token_remove c cl = removeAll c cl"

definition token_toggle :: "string \<Rightarrow> string list \<Rightarrow> string list" where
  "token_toggle c cl = (if c \<in> set cl then removeAll c cl else cl @ [c])"

definition classList_add :: "node_ref \<Rightarrow> string \<Rightarrow> dom \<Rightarrow> dom" where
  "classList_add r c = update_element r (\<lambda>e. e\<lparr>classList := token_add c (classList e)\<rparr>)"

definition classList_remove :: "node_ref \<Rightarrow> string \<Rightarrow> dom \<Rightarrow> dom" where
  "classList_remove r c = update_element r (\<lambda>e. e\<lparr>classList := token_remove c (classList e)\<rparr>)"

definition classList_toggle :: "node_ref \<Rightarrow> string \<Rightarrow> dom \<Rightarrow> dom" where
  "classList_toggle r c = update_element r (\<lambda>e. e\<lparr>classList := token_toggle c (classList e)\<rparr>)"

definition has_class :: "dom \<Rightarrow> node_ref \<Rightarrow> string \<Rightarrow> bool" where
  "has_class d r c = (case map_of d r of None \<Rightarrow> False | Some e \<Rightarrow> c \<in> set (classList e))"

text \<open>
  The \<open>innerHTML\<close> setter: the descendants of the target leave the document, the parsed
  nodes take their place right after the target. A node object is never another node
  object, also not one that has left the document: the new nodes get the references
  from \<open>base\<close> on, and the page keeps count of the references it has handed out
  (\<open>next_ref\<close> below). \<open>ref_bound\<close> is one more than the largest reference of a list of
  nodes.
\<close>

definition ref_bound :: "node list \<Rightarrow> node_ref" where
  "ref_bound ns = Suc (foldr max (map fst ns) 0)"

definition adopt :: "node_ref \<Rightarrow> node_ref list \<Rightarrow> node_ref \<Rightarrow> node \<Rightarrow> node" where
  "adopt t tas base n =
     (base + fst n, (snd n)\<lparr>ancestors := map (\<lambda>a. base + a) (ancestors (snd n)) @ t # tas\<rparr>)"

definition set_innerHTML :: "node_ref \<Rightarrow> html \<Rightarrow> node_ref \<Rightarrow> dom \<Rightarrow> dom" where
  "set_innerHTML t h base d =
     concat (map (\<lambda>n. if fst n = t then n # map (adopt t (ancestors (snd n)) base) h
                       else if t \<in> set (ancestors (snd n)) then []
                       else [n]) d)"

section \<open>The page\<close>

text \<open>
  What the scripts and the browser share during one page view: the document, the first
  reference not yet given to a node, the scroll offset, whether the window has an \<open>IntersectionObserver\<close> constructor, the registered
  event listeners in registration order, the targets of the one observer of main.js
  (\<open>None\<close> while the constant \<open>observer\<close> is not initialised), the console, the
  titles shown by \<open>alert\<close>, the timers with their due time, the clock in milliseconds,
  the \<open>timeout\<close> variables of the closures made by \<open>debounce\<close>, and the calls of
  \<open>loadHTML\<close> that wait for their fetch.
\<close>

datatype js_error = TypeError | ReferenceError | NetworkError

datatype log_entry = Log string | Warn string js_error

datatype target = Document | Window | Node node_ref

text \<open>
  The function values of the scripts. A closure carries what it captured:
  \<open>HamburgerClick hamburger navMenu\<close> and \<open>NavLinkClick hamburger navMenu\<close> the two
  nodes found by the initialiser, \<open>TimelineReset item\<close> the clicked item,
  \<open>Debounced cell func wait\<close> its \<open>timeout\<close> variable, and \<open>Later cell func key\<close> the
  arguments of the call it delays.
\<close>

datatype handler =
    MobileMenuInit
  | HamburgerClick node_ref node_ref
  | NavLinkClick node_ref node_ref
  | ScrollSpy
  | LearnMoreInit
  | LearnMoreClick
  | TimelineInit
  | TimelineClick
  | TimelineReset node_ref
  | AnimationsInit
  | KeydownEscape
  | IncludesInit
  | Debounced nat handler nat
  | Later nat handler string

record page =
  document :: dom
  next_ref :: node_ref
  pageYOffset :: rat
  has_IntersectionObserver :: bool
  listeners :: "(target \<times> string \<times> handler) list"
  observer :: "node_ref list option"
  console :: "log_entry list"
  alerts :: "string list"
  timers :: "(nat \<times> nat \<times> handler) list"
  next_timer :: nat
  now :: nat
  timeout_cells :: "nat option list"
  pending :: "(string \<times> selector) list"

definition addEventListener :: "target \<Rightarrow> string \<Rightarrow> handler \<Rightarrow> page \<Rightarrow> page" where
  "addEventListener tgt type h p = p\<lparr>listeners := listeners p @ [(tgt, type, h)]\<rparr>"

definition setTimeout :: "handler \<Rightarrow> nat \<Rightarrow> page \<Rightarrow> nat \<times> page" where
  "setTimeout cb wait p =
     (next_timer p,
      p\<lparr>timers := timers p @ [(next_timer p, now p + wait, cb)],
        next_timer := Suc (next_timer p)\<rparr>)"

definition clearTimeout :: "nat option \<Rightarrow> page \<Rightarrow> page" where
  "clearTimeout t p =
     (case t of
        None \<Rightarrow> p
      | Some i \<Rightarrow> p\<lparr>timers := filter (\<lambda>x. fst x \<noteq> i) (timers p)\<rparr>)"

text \<open>A template literal prints \<open>null\<close> for a missing attribute.\<close>

definition template_string :: "string option \<Rightarrow> string" where
  "template_string v = (case v of None \<Rightarrow> ''null'' | Some s \<Rightarrow> s)"

text \<open>
  \<open>forEach\<close> with a callback that may throw: the exception ends the loop, and what the
  earlier iterations wrote stays written.
\<close>

fun forEach :: "('a \<Rightarrow> page \<Rightarrow> page \<times> js_error option) \<Rightarrow> 'a list \<Rightarrow> page \<Rightarrow> page \<times> js_error option" where
  "forEach f [] p = (p, None)"
| "forEach f (x # xs) p =
     (case f x p of
        (p', None) \<Rightarrow> forEach f xs p'
      | (p', Some e) \<Rightarrow> (p', Some e))"

section \<open>js/includes.js\<close>

text \<open>
  \<open>fetch(url)\<close> settles with a rejection or with a response, whatever its status; reading
  the body of a response (\<open>response.text()\<close>) rejects or gives the markup.
\<close>

datatype body = BodyRejected js_error | BodyText html

datatype fetch_outcome = FetchRejected js_error | Response nat body

text \<open>
  \<open>loadHTML\<close> (lines 5 to 16) from the moment its fetch has settled. \<open>loadHTML_try\<close> is
  the \<open>try\<close> block: \<open>Inl\<close> is the exception that leaves it. \<open>loadHTML\<close> adds the
  \<open>catch\<close> block; the second component of its result is the reason with which the
  promise returned by the \<open>async\<close> function rejects, \<open>None\<close> when it fulfils.
\<close>

definition loadHTML_try :: "selector \<Rightarrow> fetch_outcome \<Rightarrow> page \<Rightarrow> js_error + page" where
  "loadHTML_try targetSelector outcome p =
     (case outcome of
        FetchRejected e \<Rightarrow> Inl e
      | Response status b \<Rightarrow>
          (case b of
             BodyRejected e \<Rightarrow> Inl e
           | BodyText h \<Rightarrow>
               (case querySelector (document p) targetSelector of
                  None \<Rightarrow> Inr p
                | Some targetElement \<Rightarrow>
                    Inr (p\<lparr>document := set_innerHTML (fst targetElement) h (next_ref p) (document p),
                           next_ref := next_ref p + ref_bound h\<rparr>))))"

definition loadHTML :: "string \<Rightarrow> selector \<Rightarrow> fetch_outcome \<Rightarrow> page \<Rightarrow> page \<times> js_error option" where
  "loadHTML url targetSelector outcome p =
     (case loadHTML_try targetSelector outcome p of
        Inl error \<Rightarrow>
          (p\<lparr>console := console p @ [Warn (''Could not load '' @ url @ '':'') error]\<rparr>, None)
      | Inr p' \<Rightarrow> (p', None))"

text \<open>
  The \<open>DOMContentLoaded\<close> listener (lines 2 to 21) calls \<open>loadHTML\<close> twice; each call
  runs up to its first \<open>await\<close> and leaves a pending fetch.
\<close>

definition includes_init :: "page \<Rightarrow> page" where
  "includes_init p =
     p\<lparr>pending := pending p @
        [(''../includes/header.html'', sel_include ''header''),
         (''../includes/footer.html'', sel_include ''footer'')]\<rparr>"

definition includes_js :: "page \<Rightarrow> page \<times> js_error option" where
  "includes_js p = (addEventListener Document ''DOMContentLoaded'' IncludesInit p, None)"

section \<open>js/main.js\<close>

subsection \<open>Mobile navigation toggle (lines 2 to 20)\<close>

definition hamburger_click :: "node_ref \<Rightarrow> node_ref \<Rightarrow> page \<Rightarrow> page" where
  "hamburger_click hamburger navMenu p =
     p\<lparr>document := classList_toggle navMenu ''active''
                     (classList_toggle hamburger ''active'' (document p))\<rparr>"

definition nav_link_click :: "node_ref \<Rightarrow> node_ref \<Rightarrow> page \<Rightarrow> page" where
  "nav_link_click hamburger navMenu p =
     p\<lparr>document := classList_remove navMenu ''active''
                     (classList_remove hamburger ''active'' (document p))\<rparr>"

definition mobile_menu_init :: "page \<Rightarrow> page" where
  "mobile_menu_init p =
     (case querySelector (document p) sel_hamburger of
        None \<Rightarrow> p
      | Some hamburger \<Rightarrow>
          (case querySelector (document p) sel_nav_menu of
             None \<Rightarrow> p
           | Some navMenu \<Rightarrow>
               fold (\<lambda>link. addEventListener (Node (fst link)) ''click''
                               (NavLinkClick (fst hamburger) (fst navMenu)))
                 (querySelectorAll (document p) sel_nav_menu_a)
                 (addEventListener (Node (fst hamburger)) ''click''
                    (HamburgerClick (fst hamburger) (fst navMenu)) p)))"

subsection \<open>Active navigation link (lines 37 to 59)\<close>

text \<open>
  The first \<open>forEach\<close> (lines 43 to 51) with its variable \<open>currentSection\<close>. Each
  iteration reads \<open>document.querySelector('.header').offsetHeight\<close>, which throws a
  TypeError when no element has the class \<open>header\<close>. The offsets are integers; the scroll
  offset may be fractional.
\<close>

fun spy_sections :: "page \<Rightarrow> node list \<Rightarrow> string \<Rightarrow> js_error + string" where
  "spy_sections p [] currentSection = Inr currentSection"
| "spy_sections p (section # rest) currentSection =
     (case querySelector (document p) sel_header of
        None \<Rightarrow> Inl TypeError
      | Some header \<Rightarrow>
          (let sectionTop = offsetTop (snd section);
               headerHeight = offsetHeight (snd header)
           in spy_sections p rest
                (if pageYOffset p \<ge> of_int (sectionTop - headerHeight - 100)
                 then template_string (getAttribute (snd section) ''id'')
                 else currentSection)))"

text \<open>One iteration of the second \<open>forEach\<close> (lines 53 to 58).\<close>

definition spy_link :: "string \<Rightarrow> node \<Rightarrow> dom \<Rightarrow> dom" where
  "spy_link currentSection link d =
     (let d1 = classList_remove (fst link) ''active'' d
      in if getAttribute (snd link) ''href'' = Some (''#'' @ currentSection)
         then classList_add (fst link) ''active'' d1
         else d1)"

definition scroll_spy :: "page \<Rightarrow> page \<times> js_error option" where
  "scroll_spy p =
     (let sections = querySelectorAll (document p) sel_section_id;
          navLinks = querySelectorAll (document p) sel_nav_menu_a_hash
      in case spy_sections p sections [] of
           Inl e \<Rightarrow> (p, Some e)
         | Inr currentSection \<Rightarrow>
             (p\<lparr>document := fold (spy_link currentSection) navLinks (document p)\<rparr>, None))"

subsection \<open>Learn More buttons (lines 62 to 74)\<close>

text \<open>
  The alert shows a fixed text around the title of the card; \<open>alerts\<close> records the title.
  \<open>closest\<close> on anything but an element, a card that is missing and a card without
  \<open>h3\<close> end in a TypeError.
\<close>

definition learn_more_click :: "target \<Rightarrow> page \<Rightarrow> page \<times> js_error option" where
  "learn_more_click this p =
     (case this of
        Node r \<Rightarrow>
          (case closest (document p) r sel_scenario_card of
             None \<Rightarrow> (p, Some TypeError)
           | Some scenario_card \<Rightarrow>
               (case querySelector_in (document p) (fst scenario_card) sel_h3 of
                  None \<Rightarrow> (p, Some TypeError)
                | Some h3 \<Rightarrow> (p\<lparr>alerts := alerts p @ [textContent (snd h3)]\<rparr>, None)))
      | _ \<Rightarrow> (p, Some TypeError))"

definition learn_more_init :: "page \<Rightarrow> page" where
  "learn_more_init p =
     fold (\<lambda>button. addEventListener (Node (fst button)) ''click'' LearnMoreClick)
       (querySelectorAll (document p) sel_learn_more) p"

subsection \<open>Timeline interaction (lines 77 to 98)\<close>

definition set_transform :: "node_ref \<Rightarrow> string \<Rightarrow> page \<Rightarrow> page" where
  "set_transform r v p =
     p\<lparr>document := update_element r (\<lambda>e. e\<lparr>style_transform := v\<rparr>) (document p)\<rparr>"

definition timeline_click :: "target \<Rightarrow> page \<Rightarrow> page \<times> js_error option" where
  "timeline_click this p =
     (case this of
        Node r \<Rightarrow>
          (case querySelector_in (document p) r sel_h4 of
             None \<Rightarrow> (p, Some TypeError)
           | Some h4 \<Rightarrow>
               (let p1 = set_transform r ''scale(1.02)'' p;
                    p2 = snd (setTimeout (TimelineReset r) 200 p1)
                in (p2\<lparr>console := console p2 @
                          [Log (''Timeline event clicked: '' @ textContent (snd h4))]\<rparr>, None)))
      | _ \<Rightarrow> (p, Some TypeError))"

definition timeline_reset :: "node_ref \<Rightarrow> page \<Rightarrow> page" where
  "timeline_reset r p = set_transform r ''scale(1)'' p"

definition timeline_item_init :: "node \<Rightarrow> page \<Rightarrow> page" where
  "timeline_item_init item p =
     (let p1 = addEventListener (Node (fst item)) ''click'' TimelineClick p
      in p1\<lparr>document := update_element (fst item)
                (\<lambda>e. e\<lparr>style_cursor := ''pointer'', style_transition := ''transform 0.2s ease''\<rparr>)
                (document p1)\<rparr>)"

definition timeline_init :: "page \<Rightarrow> page" where
  "timeline_init p = fold timeline_item_init (querySelectorAll (document p) sel_timeline_item) p"

subsection \<open>Scroll animations (lines 101 to 125)\<close>

text \<open>
  The callback given to the observer (lines 106 to 113). An entry is the pair of
  \<open>entry.target\<close> and \<open>entry.isIntersecting\<close>. The options of lines 101 to 104
  (threshold 0.1, bottom margin of 50 pixels) decide when the browser finds an element
  intersecting; what the browser reports is an event of the page.
\<close>

definition reveal :: "node_ref \<times> bool \<Rightarrow> dom \<Rightarrow> dom" where
  "reveal entry d =
     (if snd entry
      then update_element (fst entry)
             (\<lambda>e. e\<lparr>style_opacity := ''1'', style_transform := ''translateY(0)''\<rparr>) d
      else d)"

definition observer_callback :: "(node_ref \<times> bool) list \<Rightarrow> page \<Rightarrow> page" where
  "observer_callback entries p = p\<lparr>document := fold reveal entries (document p)\<rparr>"

text \<open>
  One iteration of the loop of lines 119 to 124. Reading the constant \<open>observer\<close> before
  its initialiser has completed throws a ReferenceError. \<open>observe\<close> leaves a target that
  is already observed where it is.
\<close>

definition animate_element :: "node \<Rightarrow> page \<Rightarrow> page \<times> js_error option" where
  "animate_element el p =
     (let p1 = p\<lparr>document := update_element (fst el)
                  (\<lambda>e. e\<lparr>style_opacity := ''0'', style_transform := ''translateY(20px)'',
                         style_transition := ''opacity 0.6s ease, transform 0.6s ease''\<rparr>)
                  (document p)\<rparr>
      in case observer p1 of
           None \<Rightarrow> (p1, Some ReferenceError)
         | Some targets \<Rightarrow>
             (p1\<lparr>observer := Some (if fst el \<in> set targets then targets else targets @ [fst el])\<rparr>,
              None))"

definition animations_init :: "page \<Rightarrow> page \<times> js_error option" where
  "animations_init p = forEach animate_element (querySelectorAll (document p) sel_animated) p"

subsection \<open>Keyboard navigation (lines 128 to 138)\<close>

definition keydown_escape :: "string \<Rightarrow> page \<Rightarrow> page \<times> js_error option" where
  "keydown_escape key p =
     (if key = ''Escape'' then
        (let navMenu = querySelector (document p) sel_nav_menu;
             hamburger = querySelector (document p) sel_hamburger
         in case navMenu of
              None \<Rightarrow> (p, None)
            | Some n \<Rightarrow>
                if ''active'' \<in> set (classList (snd n)) then
                  (let p1 = p\<lparr>document := classList_remove (fst n) ''active'' (document p)\<rparr>
                   in case hamburger of
                        None \<Rightarrow> (p1, Some TypeError)
                      | Some h \<Rightarrow>
                          (p1\<lparr>document := classList_remove (fst h) ''active'' (document p1)\<rparr>, None))
                else (p, None))
      else (p, None))"

subsection \<open>debounce (lines 141 to 151)\<close>

text \<open>
  \<open>debounce(func, wait)\<close> makes a closure with a fresh variable \<open>timeout\<close>.
  \<open>executedFunction\<close> is the body of that closure, \<open>later\<close> the function it hands to
  \<open>setTimeout\<close>.
\<close>

definition cell_get :: "nat option list \<Rightarrow> nat \<Rightarrow> nat option" where
  "cell_get cells c = (if c < length cells then cells ! c else None)"

definition debounce :: "handler \<Rightarrow> nat \<Rightarrow> page \<Rightarrow> handler \<times> page" where
  "debounce func wait p =
     (Debounced (length (timeout_cells p)) func wait,
      p\<lparr>timeout_cells := timeout_cells p @ [None]\<rparr>)"

definition executedFunction :: "nat \<Rightarrow> handler \<Rightarrow> nat \<Rightarrow> string \<Rightarrow> page \<Rightarrow> page" where
  "executedFunction cell func wait key p =
     (let p1 = clearTimeout (cell_get (timeout_cells p) cell) p;
          (t, p2) = setTimeout (Later cell func key) wait p1
      in p2\<lparr>timeout_cells := (timeout_cells p2)[cell := Some t]\<rparr>)"

subsection \<open>The script, top to bottom\<close>

text \<open>
  The statements of main.js in source order. \<open>new IntersectionObserver\<close> (line 106)
  throws a ReferenceError where the window has no such constructor; an exception at the
  top level ends the script, and what was registered before stays registered. The
  function declarations (\<open>scrollToSection\<close>, \<open>debounce\<close>) register nothing and nothing
  in the script calls them. The three welcome messages are logged without their
  pictographs.
\<close>

definition main_js :: "page \<Rightarrow> page \<times> js_error option" where
  "main_js p =
     (let p1 = addEventListener Document ''DOMContentLoaded'' MobileMenuInit p;
          p2 = addEventListener Window ''scroll'' ScrollSpy p1;
          p3 = addEventListener Document ''DOMContentLoaded'' LearnMoreInit p2;
          p4 = addEventListener Document ''DOMContentLoaded'' TimelineInit p3
      in if has_IntersectionObserver p4 then
           (let p5 = p4\<lparr>observer := Some []\<rparr>;
                p6 = addEventListener Document ''DOMContentLoaded'' AnimationsInit p5;
                p7 = addEventListener Document ''keydown'' KeydownEscape p6
            in (p7\<lparr>console := console p7 @
                      [Log ''Welcome to AltHistLearn - Exploring Alternative History!'',
                       Log ''This educational platform helps you discover how different choices could have shaped our world.'',
                       Log ''Explore scenarios, timelines, and learning resources to expand your historical knowledge.'']\<rparr>,
                None))
         else (p4, Some ReferenceError))"

section \<open>The browser\<close>

text \<open>
  Calling a function value: \<open>this\<close> is the target the listener was registered on,
  \<open>key\<close> the key of a keyboard event. \<open>later\<close> calls \<open>func\<close> as a plain function.
\<close>

fun run_handler :: "handler \<Rightarrow> target \<Rightarrow> string \<Rightarrow> page \<Rightarrow> page \<times> js_error option" where
  "run_handler MobileMenuInit this key p = (mobile_menu_init p, None)"
| "run_handler (HamburgerClick h n) this key p = (hamburger_click h n p, None)"
| "run_handler (NavLinkClick h n) this key p = (nav_link_click h n p, None)"
| "run_handler ScrollSpy this key p = scroll_spy p"
| "run_handler LearnMoreInit this key p = (learn_more_init p, None)"
| "run_handler LearnMoreClick this key p = learn_more_click this p"
| "run_handler TimelineInit this key p = (timeline_init p, None)"
| "run_handler TimelineClick this key p = timeline_click this p"
| "run_handler (TimelineReset r) this key p = (timeline_reset r p, None)"
| "run_handler AnimationsInit this key p = animations_init p"
| "run_handler KeydownEscape this key p = keydown_escape key p"
| "run_handler IncludesInit this key p = (includes_init p, None)"
| "run_handler (Debounced c func wait) this key p = (executedFunction c func wait key p, None)"
| "run_handler (Later c func key') this key p =
     run_handler func Window key' (clearTimeout (cell_get (timeout_cells p) c) p)"

definition listeners_for :: "page \<Rightarrow> target \<Rightarrow> string \<Rightarrow> handler list" where
  "listeners_for p tgt type =
     map (\<lambda>l. snd (snd l)) (filter (\<lambda>l. fst l = tgt \<and> fst (snd l) = type) (listeners p))"

definition thrown :: "js_error option \<Rightarrow> js_error list" where
  "thrown e = (case e of None \<Rightarrow> [] | Some x \<Rightarrow> [x])"

text \<open>
  An exception that leaves a listener is reported and the remaining listeners still
  run. The second component collects the reported exceptions.
\<close>

fun invoke_all :: "handler list \<Rightarrow> target \<Rightarrow> string \<Rightarrow> page \<Rightarrow> page \<times> js_error list" where
  "invoke_all [] this key p = (p, [])"
| "invoke_all (h # hs) this key p =
     (let (p1, e) = run_handler h this key p;
          (p2, es) = invoke_all hs this key p1
      in (p2, thrown e @ es))"

definition dispatchEvent :: "target \<Rightarrow> string \<Rightarrow> string \<Rightarrow> page \<Rightarrow> page \<times> js_error list" where
  "dispatchEvent tgt type key p = invoke_all (listeners_for p tgt type) tgt key p"

fun dispatch_path :: "target list \<Rightarrow> string \<Rightarrow> string \<Rightarrow> page \<Rightarrow> page \<times> js_error list" where
  "dispatch_path [] type key p = (p, [])"
| "dispatch_path (t # ts) type key p =
     (let (p1, es1) = dispatchEvent t type key p;
          (p2, es2) = dispatch_path ts type key p1
      in (p2, es1 @ es2))"

text \<open>
  What the browser does to the page: the document is parsed, a click bubbles from the
  element through its ancestors to the document and the window, the user scrolls or
  presses a key, the observer reports entries for the targets it observes, a pending
  fetch settles, a timer that is due fires, time passes.
\<close>

datatype event =
    DOMContentLoaded
  | Click node_ref
  | Scroll rat
  | KeyDown string
  | Intersection "(node_ref \<times> bool) list"
  | FetchSettles nat fetch_outcome
  | TimerFires nat
  | Elapse nat

fun fire :: "event \<Rightarrow> page \<Rightarrow> page \<times> js_error list" where
  "fire DOMContentLoaded p = dispatch_path [Document, Window] ''DOMContentLoaded'' [] p"
| "fire (Click r) p =
     (case map_of (document p) r of
        None \<Rightarrow> (p, [])
      | Some e \<Rightarrow> dispatch_path (Node r # map Node (ancestors e) @ [Document, Window]) ''click'' [] p)"
| "fire (Scroll y) p = dispatch_path [Document, Window] ''scroll'' [] (p\<lparr>pageYOffset := y\<rparr>)"
| "fire (KeyDown key) p = dispatch_path [Document, Window] ''keydown'' key p"
| "fire (Intersection entries) p =
     (case observer p of
        None \<Rightarrow> (p, [])
      | Some targets \<Rightarrow>
          (let observed = filter (\<lambda>entry. fst entry \<in> set targets) entries
           in if observed = [] then (p, []) else (observer_callback observed p, [])))"
| "fire (FetchSettles i outcome) p =
     (if i < length (pending p) then
        (let call = pending p ! i;
             p1 = p\<lparr>pending := take i (pending p) @ drop (Suc i) (pending p)\<rparr>;
             (p2, e) = loadHTML (fst call) (snd call) outcome p1
         in (p2, thrown e))
      else (p, []))"
| "fire (TimerFires i) p =
     (case find (\<lambda>t. fst t = i) (timers p) of
        None \<Rightarrow> (p, [])
      | Some t \<Rightarrow>
          if fst (snd t) \<le> now p then
            (let (p1, e) = run_handler (snd (snd t)) Window []
                             (p\<lparr>timers := filter (\<lambda>x. fst x \<noteq> i) (timers p)\<rparr>)
             in (p1, thrown e))
          else (p, []))"
| "fire (Elapse ms) p = (p\<lparr>now := now p + ms\<rparr>, [])"

fun run :: "event list \<Rightarrow> page \<Rightarrow> page \<times> js_error list" where
  "run [] p = (p, [])"
| "run (ev # evs) p =
     (let (p1, es1) = fire ev p;
          (p2, es2) = run evs p1
      in (p2, es1 @ es2))"

text \<open>Loading a page: its scripts run in order, each to its end or to its exception.\<close>

fun load_scripts :: "(page \<Rightarrow> page \<times> js_error option) list \<Rightarrow> page \<Rightarrow> page \<times> js_error list" where
  "load_scripts [] p = (p, [])"
| "load_scripts (s # ss) p =
     (let (p1, e) = s p;
          (p2, es) = load_scripts ss p1
      in (p2, thrown e @ es))"

definition new_page :: "dom \<Rightarrow> bool \<Rightarrow> page" where
  "new_page d io =
     \<lparr>document = d, next_ref = ref_bound d, pageYOffset = 0, has_IntersectionObserver = io, listeners = [],
      observer = None, console = [], alerts = [], timers = [], next_timer = 1, now = 0,
      timeout_cells = [], pending = []\<rparr>"

text \<open>An element as markup gives it, before any script has written to it.\<close>

definition elem :: "string \<Rightarrow> string list \<Rightarrow> (string \<times> string) list \<Rightarrow> node_ref list \<Rightarrow> element" where
  "elem name classes attrs ancs =
     \<lparr>localName = name, classList = classes, attributes = attrs, ancestors = ancs,
      textContent = [], offsetTop = 0, offsetHeight = 0, clientHeight = 0,
      style_opacity = [], style_transform = [], style_transition = [], style_cursor = []\<rparr>"

section \<open>The specification's activation rule\<close>

text \<open>
  The rule of the specification, written from its words: a section has been passed when
  the scroll offset is at or past its top less the header height less the margin of
  100, and the active section is the last one in document order that has been passed,
  none when no section has.
\<close>

definition passed :: "rat \<Rightarrow> int \<Rightarrow> node \<Rightarrow> bool" where
  "passed scrollOffset headerHeight s =
     (scrollOffset \<ge> of_int (offsetTop (snd s) - headerHeight - 100))"

definition spec_active_section :: "rat \<Rightarrow> int \<Rightarrow> node list \<Rightarrow> string" where
  "spec_active_section scrollOffset headerHeight sections =
     (let reached = filter (passed scrollOffset headerHeight) sections
      in if reached = [] then []
         else template_string (getAttribute (snd (last reached)) ''id''))"

text \<open>What one iteration of the link loop leaves in the class list of its link.\<close>

definition relabel :: "string \<Rightarrow> element \<Rightarrow> element \<Rightarrow> element" where
  "relabel cur link e =
     e\<lparr>classList :=
         (if getAttribute link ''href'' = Some (''#'' @ cur)
          then token_add ''active'' (token_remove ''active'' (classList e))
          else token_remove ''active'' (classList e))\<rparr>"

definition active_links :: "dom \<Rightarrow> node list \<Rightarrow> node list" where
  "active_links d links = filter (\<lambda>l. has_class d (fst l) ''active'') links"

section \<open>Example pages\<close>

text \<open>
  A page with its header in the markup: a header 70 high with a menu of three links and
  the hamburger, three sections at the given tops, a scenario card with its button in
  the first section and a timeline item in the second.
\<close>

definition static_page :: "int \<Rightarrow> int \<Rightarrow> int \<Rightarrow> dom" where
  "static_page t1 t2 t3 =
     [(1, (elem ''header'' [''header''] [] [])\<lparr>offsetHeight := 70\<rparr>),
      (2, elem ''ul'' [''nav-menu''] [] [1]),
      (3, elem ''a'' [] [(''href'', ''#s1'')] [2, 1]),
      (4, elem ''a'' [] [(''href'', ''#s2'')] [2, 1]),
      (5, elem ''a'' [] [(''href'', ''#s3'')] [2, 1]),
      (6, elem ''div'' [''hamburger''] [] [1]),
      (7, (elem ''section'' [] [(''id'', ''s1'')] [])\<lparr>offsetTop := t1\<rparr>),
      (8, elem ''div'' [''scenario-card''] [] [7]),
      (9, (elem ''h3'' [] [] [8, 7])\<lparr>textContent := ''What if Rome never fell?''\<rparr>),
      (10, elem ''button'' [''learn-more''] [] [8, 7]),
      (11, (elem ''section'' [] [(''id'', ''s2'')] [])\<lparr>offsetTop := t2\<rparr>),
      (12, elem ''div'' [''timeline-item''] [] [11]),
      (13, (elem ''h4'' [] [] [12, 11])\<lparr>textContent := ''1066''\<rparr>),
      (14, (elem ''section'' [] [(''id'', ''s3'')] [])\<lparr>offsetTop := t3\<rparr>)]"

definition three_sections :: dom where
  "three_sections = static_page 0 500 1000"

text \<open>A menu with two links to the same section.\<close>

definition twin_links_page :: dom where
  "twin_links_page =
     [(1, (elem ''header'' [''header''] [] [])\<lparr>offsetHeight := 70\<rparr>),
      (2, elem ''ul'' [''nav-menu''] [] [1]),
      (3, elem ''a'' [] [(''href'', ''#s1'')] [2, 1]),
      (4, elem ''a'' [] [(''href'', ''#s1'')] [2, 1]),
      (5, (elem ''section'' [] [(''id'', ''s1'')] [])\<lparr>offsetTop := 0\<rparr>)]"

text \<open>A menu with a link to the top of the page, the only section 500 below it.\<close>

definition hash_link_page :: dom where
  "hash_link_page =
     [(1, (elem ''header'' [''header''] [] [])\<lparr>offsetHeight := 70\<rparr>),
      (2, elem ''ul'' [''nav-menu''] [] [1]),
      (3, elem ''a'' [] [(''href'', ''#'')] [2, 1]),
      (4, elem ''a'' [] [(''href'', ''#s1'')] [2, 1]),
      (5, (elem ''section'' [] [(''id'', ''s1'')] [])\<lparr>offsetTop := 500\<rparr>)]"

text \<open>
  A refactored scenario page: placeholders for the header and the footer, two sections
  in the markup. The header fragment brings the header, the menu with its links and
  the hamburger.
\<close>

definition included_page :: dom where
  "included_page =
     [(1, elem ''div'' [] [(''data-include'', ''header'')] []),
      (2, (elem ''section'' [] [(''id'', ''s1'')] [])\<lparr>offsetTop := 0\<rparr>),
      (3, (elem ''section'' [] [(''id'', ''s2'')] [])\<lparr>offsetTop := 500\<rparr>),
      (4, elem ''div'' [] [(''data-include'', ''footer'')] [])]"

definition header_html :: html where
  "header_html =
     [(0, (elem ''header'' [''header''] [] [])\<lparr>offsetHeight := 70\<rparr>),
      (1, elem ''ul'' [''nav-menu''] [] [0]),
      (2, elem ''a'' [] [(''href'', ''#s1'')] [1, 0]),
      (3, elem ''a'' [] [(''href'', ''#s2'')] [1, 0]),
      (4, elem ''div'' [''hamburger''] [] [0])]"

text \<open>A placeholder with authored fallback content, and the page a server sends with status 404.\<close>

definition fallback_page :: dom where
  "fallback_page =
     [(1, elem ''div'' [] [(''data-include'', ''header'')] []),
      (2, (elem ''p'' [''fallback''] [] [1])\<lparr>textContent := ''AltHistAI''\<rparr>),
      (3, (elem ''section'' [] [(''id'', ''s1'')] [])\<lparr>offsetTop := 0\<rparr>)]"

definition not_found_html :: html where
  "not_found_html = [(0, (elem ''h1'' [] [] [])\<lparr>textContent := ''404 Not Found''\<rparr>)]"

text \<open>A menu panel that is open in a document without a hamburger.\<close>

definition panel_only_page :: dom where
  "panel_only_page =
     [(1, elem ''ul'' [''nav-menu'', ''active''] [] []),
      (2, elem ''a'' [] [(''href'', ''#s1'')] [1])]"

text \<open>The page as the two scripts leave it, main.js alone or after includes.js.\<close>

definition loaded :: "dom \<Rightarrow> bool \<Rightarrow> page" where
  "loaded d io = fst (load_scripts [main_js] (new_page d io))"

definition loaded_with_includes :: "dom \<Rightarrow> bool \<Rightarrow> page" where
  "loaded_with_includes d io = fst (load_scripts [includes_js, main_js] (new_page d io))"

definition classes_of :: "page \<Rightarrow> node_ref \<Rightarrow> string list" where
  "classes_of p r = (case map_of (document p) r of None \<Rightarrow> [] | Some e \<Rightarrow> classList e)"

definition transform_of :: "page \<Rightarrow> node_ref \<Rightarrow> string" where
  "transform_of p r = (case map_of (document p) r of None \<Rightarrow> [] | Some e \<Rightarrow> style_transform e)"

definition opacity_of :: "page \<Rightarrow> node_ref \<Rightarrow> string" where
  "opacity_of p r = (case map_of (document p) r of None \<Rightarrow> [] | Some e \<Rightarrow> style_opacity e)"

definition transition_of :: "page \<Rightarrow> node_ref \<Rightarrow> string" where
  "transition_of p r = (case map_of (document p) r of None \<Rightarrow> [] | Some e \<Rightarrow> style_transition e)"

definition active_refs :: "page \<Rightarrow> node_ref list" where
  "active_refs p =
     map fst (active_links (document p) (querySelectorAll (document p) sel_nav_menu_a_hash))"

text \<open>
  The use of \<open>debounce\<close> that the API reference of the repository shows,
  \<open>window.addEventListener('scroll', debounce(handler, 100))\<close>. main.js does not contain
  this statement; it stands here to compare with what main.js registers.
\<close>

definition documented_scroll_setup :: "page \<Rightarrow> page" where
  "documented_scroll_setup p =
     (let (h, p1) = debounce ScrollSpy 100 p
      in addEventListener Window ''scroll'' h p1)"

text \<open>What the observer callback writes to an intersecting target, and what the
  animation initialiser writes to an element before it observes it.\<close>

definition revealed :: "element \<Rightarrow> element" where
  "revealed e = e\<lparr>style_opacity := ''1'', style_transform := ''translateY(0)''\<rparr>"

definition hidden :: "element \<Rightarrow> element" where
  "hidden e = e\<lparr>style_opacity := ''0'', style_transform := ''translateY(20px)'',
                style_transition := ''opacity 0.6s ease, transform 0.6s ease''\<rparr>"

definition observe :: "node \<Rightarrow> node_ref list \<Rightarrow> node_ref list" where
  "observe el targets = (if fst el \<in> set targets then targets else targets @ [fst el])"

text \<open>The nodes below \<open>t\<close>, in document order.\<close>

definition subtree :: "node_ref \<Rightarrow> dom \<Rightarrow> node list" where
  "subtree t d = filter (\<lambda>n. t \<in> set (ancestors (snd n))) d"

definition outside :: "node_ref \<Rightarrow> dom \<Rightarrow> node list" where
  "outside t d = filter (\<lambda>n. t \<notin> set (ancestors (snd n))) d"

text \<open>A menu whose first link leads to another page and is marked \<open>active\<close> in the markup.\<close>

definition authored_active_page :: dom where
  "authored_active_page =
     [(1, (elem ''header'' [''header''] [] [])\<lparr>offsetHeight := 70\<rparr>),
      (2, elem ''ul'' [''nav-menu''] [] [1]),
      (3, elem ''a'' [''active''] [(''href'', ''index.html'')] [2, 1]),
      (4, elem ''a'' [] [(''href'', ''#s1'')] [2, 1]),
      (5, (elem ''section'' [] [(''id'', ''s1'')] [])\<lparr>offsetTop := 0\<rparr>)]"

text \<open>
  A page whose header placeholder holds an authored hamburger and panel, with the
  footer fragment.
\<close>

definition authored_menu_page :: dom where
  "authored_menu_page =
     [(1, elem ''div'' [] [(''data-include'', ''header'')] []),
      (3, elem ''div'' [''hamburger''] [] [1]),
      (4, elem ''ul'' [''nav-menu''] [] [1]),
      (2, elem ''div'' [] [(''data-include'', ''footer'')] [])]"

definition footer_html :: html where
  "footer_html =
     [(0, elem ''footer'' [''footer''] [] []),
      (1, elem ''a'' [] [(''href'', ''about.html'')] [0])]"

section \<open>Properties of the scroll handler\<close>

lemma spy_sections_with_header:
  assumes "querySelector (document p) sel_header = Some header"
  shows "spy_sections p sections cur =
           Inr (case rev (filter (passed (pageYOffset p) (offsetHeight (snd header))) sections) of
                  [] \<Rightarrow> cur
                | s # _ \<Rightarrow> template_string (getAttribute (snd s) ''id''))"
  using assms
proof (induction sections arbitrary: cur)
  case Nil
  then show ?case by simp
next
  case (Cons s ss)
  then show ?case
    by (simp add: passed_def Let_def split: list.splits)
qed

lemma section_has_id:
  "n \<in> set (querySelectorAll d sel_section_id) \<Longrightarrow> getAttribute (snd n) ''id'' \<noteq> None"
  by (simp add: querySelectorAll_def matches_def sel_section_id_def matches_complex_def
      matches_compound_def)

text \<open>
  With the header in the document, the first loop of the scroll handler leaves in
  \<open>currentSection\<close> the identifier of the last section in document order whose top less
  the header height less 100 the scroll offset has reached, the header height being
  read from the document at the time of the event; the handler then completes and
  relabels the links for that identifier.
\<close>

lemma scroll_spy_selects_last_passed_section:
  assumes "querySelector (document p) sel_header = Some header"
  shows "spy_sections p (querySelectorAll (document p) sel_section_id) [] =
           Inr (spec_active_section (pageYOffset p) (offsetHeight (snd header))
                  (querySelectorAll (document p) sel_section_id))
         \<and> scroll_spy p =
             (p\<lparr>document :=
                  fold (spy_link (spec_active_section (pageYOffset p) (offsetHeight (snd header))
                                    (querySelectorAll (document p) sel_section_id)))
                    (querySelectorAll (document p) sel_nav_menu_a_hash) (document p)\<rparr>,
              None)"
proof -
  have last_of_rev: "(case rev xs of [] \<Rightarrow> [] | s # _ \<Rightarrow> template_string (getAttribute (snd s) ''id''))
        = (if xs = [] then [] else template_string (getAttribute (snd (last xs)) ''id''))"
    for xs :: "node list"
    by (cases xs rule: rev_cases) simp_all
  show ?thesis
    by (simp add: spy_sections_with_header[OF assms] spec_active_section_def scroll_spy_def Let_def
        last_of_rev)
qed

text \<open>
  The example of the specification: tops 0, 500 and 1000 under a header of height 70.
  At offset 600 the section at 500 is selected, at offset 900 the section at 1000.
\<close>

lemma scroll_spy_spec_example:
  "querySelector three_sections sel_header = Some (hd three_sections)
   \<and> spy_sections ((new_page three_sections True)\<lparr>pageYOffset := 600\<rparr>)
        (querySelectorAll three_sections sel_section_id) [] = Inr ''s2''
   \<and> spy_sections ((new_page three_sections True)\<lparr>pageYOffset := 900\<rparr>)
        (querySelectorAll three_sections sel_section_id) [] = Inr ''s3''"
proof -
  have h: "querySelector three_sections sel_header = Some (hd three_sections)"
    by code_simp
  have h600: "querySelector (document ((new_page three_sections True)\<lparr>pageYOffset := 600\<rparr>)) sel_header
                = Some (hd three_sections)"
    using h by (simp add: new_page_def)
  have h900: "querySelector (document ((new_page three_sections True)\<lparr>pageYOffset := 900\<rparr>)) sel_header
                = Some (hd three_sections)"
    using h by (simp add: new_page_def)
  have d: "document (new_page three_sections True) = three_sections"
    by (simp add: new_page_def)
  have a600: "spec_active_section 600 (offsetHeight (snd (hd three_sections)))
                (querySelectorAll three_sections sel_section_id) = ''s2''"
    by code_simp
  have a900: "spec_active_section 900 (offsetHeight (snd (hd three_sections)))
                (querySelectorAll three_sections sel_section_id) = ''s3''"
    by code_simp
  from scroll_spy_selects_last_passed_section[OF h600] scroll_spy_selects_last_passed_section[OF h900]
  show ?thesis
    using h a600 a900 d by simp
qed

lemma scroll_spy_completes_iff:
  "snd (scroll_spy p) = None \<longleftrightarrow>
     querySelector (document p) sel_header \<noteq> None \<or> querySelectorAll (document p) sel_section_id = []"
proof (cases "querySelector (document p) sel_header")
  case None
  then show ?thesis
    by (cases "querySelectorAll (document p) sel_section_id") (simp_all add: scroll_spy_def)
next
  case (Some header)
  then show ?thesis by (simp add: scroll_spy_def Let_def spy_sections_with_header)
qed

text \<open>
  C2. The rule holds only while the header is in the document. On a refactored page
  the sections are in the markup and the header arrives with its fragment: a scroll to
  offset 600 before it has arrived throws in the section loop and selects nothing. The
  page then rests at offset 600, past the section at 500, with no link marked, also
  once the header is there; the same scroll after the header has arrived marks the
  link of that section.
\<close>

theorem scroll_without_header_selects_nothing:
  "querySelector (document (loaded_with_includes included_page True)) sel_header = None
   \<and> map (\<lambda>n. offsetTop (snd n))
        (querySelectorAll (document (loaded_with_includes included_page True)) sel_section_id) = [0, 500]
   \<and> spy_sections ((loaded_with_includes included_page True)\<lparr>pageYOffset := 600\<rparr>)
        (querySelectorAll (document (loaded_with_includes included_page True)) sel_section_id) []
      = Inl TypeError
   \<and> snd (run [DOMContentLoaded, Scroll 600] (loaded_with_includes included_page True)) = [TypeError]
   \<and> pageYOffset (fst (run [DOMContentLoaded, Scroll 600,
                             FetchSettles 0 (Response 200 (BodyText header_html))]
                          (loaded_with_includes included_page True))) = 600
   \<and> active_refs (fst (run [DOMContentLoaded, Scroll 600,
                             FetchSettles 0 (Response 200 (BodyText header_html))]
                          (loaded_with_includes included_page True))) = []
   \<and> spec_active_section 600 70
        (querySelectorAll (document (loaded_with_includes included_page True)) sel_section_id) = ''s2''
   \<and> active_refs (fst (run [DOMContentLoaded, FetchSettles 0 (Response 200 (BodyText header_html)),
                             Scroll 600]
                          (loaded_with_includes included_page True))) = [8]"
  by code_simp

lemma map_of_update_element:
  "map_of (update_element r f d) r' = (if r' = r then map_option f (map_of d r) else map_of d r')"
  by (induction d) (auto simp: update_element_def)

lemma map_of_spy_link:
  "map_of (spy_link cur link d) r =
     (if r = fst link then map_option (relabel cur (snd link)) (map_of d r) else map_of d r)"
  by (cases "map_of d r") (auto simp: spy_link_def Let_def classList_remove_def classList_add_def
      map_of_update_element relabel_def)

lemma map_of_fold_spy_link_other:
  "r \<notin> fst ` set links \<Longrightarrow> map_of (fold (spy_link cur) links d) r = map_of d r"
  by (induction links arbitrary: d) (auto simp: map_of_spy_link)

lemma map_of_fold_spy_link:
  "distinct (map fst links) \<Longrightarrow> (r, e) \<in> set links \<Longrightarrow>
   map_of (fold (spy_link cur) links d) r = map_option (relabel cur e) (map_of d r)"
proof (induction links arbitrary: d)
  case Nil
  then show ?case by simp
next
  case (Cons l ls)
  show ?case
  proof (cases "l = (r, e)")
    case True
    with Cons.prems have "r \<notin> fst ` set ls" by auto
    then show ?thesis using True by (simp add: map_of_fold_spy_link_other map_of_spy_link)
  next
    case False
    with Cons.prems have in_ls: "(r, e) \<in> set ls" and d: "distinct (map fst ls)" by auto
    from in_ls have "r \<in> fst ` set ls" by force
    moreover from Cons.prems(1) have "fst l \<notin> fst ` set ls" by simp
    ultimately have "r \<noteq> fst l" by blast
    with Cons.IH[OF d in_ls] show ?thesis by (simp add: map_of_spy_link)
  qed
qed

lemma active_after_relabel:
  "''active'' \<in> set (classList (relabel cur link e)) = (getAttribute link ''href'' = Some (''#'' @ cur))"
  by (simp add: relabel_def token_add_def token_remove_def)

lemma has_class_after_links:
  assumes "distinct (map fst d)" "l \<in> set (querySelectorAll d sel)"
  shows "has_class (fold (spy_link cur) (querySelectorAll d sel) d) (fst l) ''active''
         = (getAttribute (snd l) ''href'' = Some (''#'' @ cur))"
proof -
  obtain r e where l: "l = (r, e)" by (cases l)
  have dl: "distinct (map fst (querySelectorAll d sel))"
    using assms(1) by (simp add: querySelectorAll_def distinct_map_filter)
  have "(r, e) \<in> set d" using assms(2) l by (simp add: querySelectorAll_def)
  with assms(1) have m: "map_of d r = Some e" by simp
  have "(r, e) \<in> set (querySelectorAll d sel)" using assms(2) l by simp
  from map_of_fold_spy_link[OF dl this] show ?thesis
    by (simp add: has_class_def m active_after_relabel l)
qed

lemma active_links_after_links:
  assumes "distinct (map fst d)"
  shows "active_links (fold (spy_link cur) (querySelectorAll d sel) d) (querySelectorAll d sel)
         = filter (\<lambda>l. getAttribute (snd l) ''href'' = Some (''#'' @ cur)) (querySelectorAll d sel)"
  unfolding active_links_def
  by (rule filter_cong) (simp_all add: has_class_after_links[OF assms])

lemma at_most_one_with_value:
  "distinct (map f xs) \<Longrightarrow> length (filter (\<lambda>x. f x = v) xs) \<le> Suc 0"
  by (induction xs) (auto simp: filter_empty_conv image_iff)

lemma none_with_value:
  "v \<notin> set (map f xs) \<Longrightarrow> filter (\<lambda>x. f x = v) xs = []"
  by (induction xs) auto

lemma spy_sections_completed:
  assumes completes: "spy_sections p sections [] = Inr cur"
      and height: "\<And>header. querySelector (document p) sel_header = Some header
                      \<Longrightarrow> offsetHeight (snd header) = headerHeight"
      and none: "filter (passed (pageYOffset p) headerHeight) sections = []"
  shows "cur = []"
proof (cases "querySelector (document p) sel_header")
  case None
  with completes have "sections = []" by (cases sections) simp_all
  with completes show ?thesis by simp
next
  case (Some header)
  from height[OF Some] none spy_sections_with_header[OF Some, of sections "[]"] completes
  show ?thesis by simp
qed

text \<open>
  C8, as amended. In a document whose node references are distinct, after every scroll
  recomputation that completes: if the links the handler relabels, those matched by
  \<open>.nav-menu a[href^="#"]\<close>, have pairwise different targets, at most one of them
  carries \<open>active\<close>; and if no section has been passed (for the height of the header,
  where there is one) and none of these links has the target \<open>#\<close>, none of them
  carries it.
\<close>

theorem scroll_spy_at_most_one_active_link:
  assumes wf: "distinct (map fst (document p))"
      and completes: "scroll_spy p = (p', None)"
  shows "(distinct (map (\<lambda>l. getAttribute (snd l) ''href'')
                     (querySelectorAll (document p) sel_nav_menu_a_hash))
          \<longrightarrow> length (active_links (document p') (querySelectorAll (document p) sel_nav_menu_a_hash)) \<le> 1)
         \<and> ((\<forall>header. querySelector (document p) sel_header = Some header
                        \<longrightarrow> offsetHeight (snd header) = headerHeight)
              \<and> filter (passed (pageYOffset p) headerHeight)
                    (querySelectorAll (document p) sel_section_id) = []
              \<and> Some ''#'' \<notin> set (map (\<lambda>l. getAttribute (snd l) ''href'')
                                     (querySelectorAll (document p) sel_nav_menu_a_hash))
              \<longrightarrow> active_links (document p') (querySelectorAll (document p) sel_nav_menu_a_hash) = [])"
proof -
  from completes obtain cur where
    cur: "spy_sections p (querySelectorAll (document p) sel_section_id) [] = Inr cur"
    and p': "document p' = fold (spy_link cur) (querySelectorAll (document p) sel_nav_menu_a_hash) (document p)"
    by (auto simp: scroll_spy_def Let_def split: sum.splits)
  have act: "active_links (document p') (querySelectorAll (document p) sel_nav_menu_a_hash)
             = filter (\<lambda>l. getAttribute (snd l) ''href'' = Some (''#'' @ cur))
                 (querySelectorAll (document p) sel_nav_menu_a_hash)"
    by (simp add: p' active_links_after_links[OF wf])
  have one: "length (active_links (document p') (querySelectorAll (document p) sel_nav_menu_a_hash)) \<le> 1"
    if hrefs: "distinct (map (\<lambda>l. getAttribute (snd l) ''href'')
                     (querySelectorAll (document p) sel_nav_menu_a_hash))"
    using at_most_one_with_value[OF hrefs, of "Some (''#'' @ cur)"] by (simp add: act)
  have none: "active_links (document p') (querySelectorAll (document p) sel_nav_menu_a_hash) = []"
    if h: "\<forall>header. querySelector (document p) sel_header = Some header
                        \<longrightarrow> offsetHeight (snd header) = headerHeight"
      and np: "filter (passed (pageYOffset p) headerHeight)
                    (querySelectorAll (document p) sel_section_id) = []"
      and nh: "Some ''#'' \<notin> set (map (\<lambda>l. getAttribute (snd l) ''href'')
                                     (querySelectorAll (document p) sel_nav_menu_a_hash))"
  proof -
    from h have "\<And>header. querySelector (document p) sel_header = Some header
                      \<Longrightarrow> offsetHeight (snd header) = headerHeight" by blast
    from spy_sections_completed[OF cur this np] have "cur = []" .
    with none_with_value[OF nh] show ?thesis by (simp add: act)
  qed
  from one none show ?thesis by blast
qed

text \<open>
  Three pages: the three sections at offset 600; sections that start 400 below the top
  at offset 0; a document with neither header nor section.
\<close>

theorem scroll_spy_at_most_one_active_link_witness:
  "distinct (map fst three_sections)
   \<and> snd (scroll_spy ((new_page three_sections True)\<lparr>pageYOffset := 600\<rparr>)) = None
   \<and> distinct (map (\<lambda>l. getAttribute (snd l) ''href'') (querySelectorAll three_sections sel_nav_menu_a_hash))
   \<and> length (active_links (document (fst (scroll_spy ((new_page three_sections True)\<lparr>pageYOffset := 600\<rparr>))))
               (querySelectorAll three_sections sel_nav_menu_a_hash)) \<le> 1
   \<and> distinct (map fst (static_page 400 900 1400))
   \<and> snd (scroll_spy (new_page (static_page 400 900 1400) True)) = None
   \<and> querySelector (static_page 400 900 1400) sel_header = Some (hd (static_page 400 900 1400))
   \<and> offsetHeight (snd (hd (static_page 400 900 1400))) = 70
   \<and> filter (passed 0 70) (querySelectorAll (static_page 400 900 1400) sel_section_id) = []
   \<and> Some ''#'' \<notin> set (map (\<lambda>l. getAttribute (snd l) ''href'')
                         (querySelectorAll (static_page 400 900 1400) sel_nav_menu_a_hash))
   \<and> active_links (document (fst (scroll_spy (new_page (static_page 400 900 1400) True))))
        (querySelectorAll (static_page 400 900 1400) sel_nav_menu_a_hash) = []
   \<and> distinct (map fst panel_only_page)
   \<and> snd (scroll_spy (new_page panel_only_page True)) = None
   \<and> querySelector panel_only_page sel_header = None
   \<and> filter (passed 0 0) (querySelectorAll panel_only_page sel_section_id) = []
   \<and> Some ''#'' \<notin> set (map (\<lambda>l. getAttribute (snd l) ''href'')
                         (querySelectorAll panel_only_page sel_nav_menu_a_hash))
   \<and> active_links (document (fst (scroll_spy (new_page panel_only_page True))))
        (querySelectorAll panel_only_page sel_nav_menu_a_hash) = []"
proof -
  let ?p = "(new_page three_sections True)\<lparr>pageYOffset := 600\<rparr>"
  let ?q = "new_page (static_page 400 900 1400) True"
  let ?r = "new_page panel_only_page True"
  have dp: "document ?p = three_sections"
    and dq: "document ?q = static_page 400 900 1400" and yq: "pageYOffset ?q = 0"
    and dr: "document ?r = panel_only_page" and yr: "pageYOffset ?r = 0"
    by (simp_all add: new_page_def)
  have wfp: "distinct (map fst three_sections)" by code_simp
  have hrefs: "distinct (map (\<lambda>l. getAttribute (snd l) ''href'')
                 (querySelectorAll three_sections sel_nav_menu_a_hash))" by code_simp
  have np: "snd (scroll_spy ?p) = None" by code_simp
  then have cp: "scroll_spy ?p = (fst (scroll_spy ?p), None)" by (simp add: prod_eq_iff)
  have wfq: "distinct (map fst (static_page 400 900 1400))" by code_simp
  have nq: "snd (scroll_spy ?q) = None" by code_simp
  then have cq: "scroll_spy ?q = (fst (scroll_spy ?q), None)" by (simp add: prod_eq_iff)
  have hq: "querySelector (static_page 400 900 1400) sel_header = Some (hd (static_page 400 900 1400))"
    by code_simp
  have oq: "offsetHeight (snd (hd (static_page 400 900 1400))) = 70" by code_simp
  have fq: "filter (passed 0 70) (querySelectorAll (static_page 400 900 1400) sel_section_id) = []"
    by code_simp
  have sq: "Some ''#'' \<notin> set (map (\<lambda>l. getAttribute (snd l) ''href'')
                         (querySelectorAll (static_page 400 900 1400) sel_nav_menu_a_hash))"
    by code_simp
  have wfr: "distinct (map fst panel_only_page)" by code_simp
  have nr: "snd (scroll_spy ?r) = None" by code_simp
  then have cr: "scroll_spy ?r = (fst (scroll_spy ?r), None)" by (simp add: prod_eq_iff)
  have hr: "querySelector panel_only_page sel_header = None" by code_simp
  have fr: "filter (passed 0 0) (querySelectorAll panel_only_page sel_section_id) = []"
    by code_simp
  have sr: "Some ''#'' \<notin> set (map (\<lambda>l. getAttribute (snd l) ''href'')
                         (querySelectorAll panel_only_page sel_nav_menu_a_hash))"
    by code_simp
  have heightq: "\<forall>header. querySelector (document ?q) sel_header = Some header
                   \<longrightarrow> offsetHeight (snd header) = 70"
    using hq oq by (simp add: dq)
  have heightr: "\<forall>header. querySelector (document ?r) sel_header = Some header
                   \<longrightarrow> offsetHeight (snd header) = 0"
    using hr by (simp add: dr)
  from scroll_spy_at_most_one_active_link[of ?p "fst (scroll_spy ?p)" 70] wfp cp hrefs
  have one: "length (active_links (document (fst (scroll_spy ?p)))
               (querySelectorAll three_sections sel_nav_menu_a_hash)) \<le> 1"
    by (simp add: dp)
  from scroll_spy_at_most_one_active_link[of ?q "fst (scroll_spy ?q)" 70] wfq cq heightq fq sq
  have noneq: "active_links (document (fst (scroll_spy ?q)))
        (querySelectorAll (static_page 400 900 1400) sel_nav_menu_a_hash) = []"
    by (simp add: dq yq)
  from scroll_spy_at_most_one_active_link[of ?r "fst (scroll_spy ?r)" 0] wfr cr heightr fr sr
  have noner: "active_links (document (fst (scroll_spy ?r)))
        (querySelectorAll panel_only_page sel_nav_menu_a_hash) = []"
    by (simp add: dr yr)
  from wfp np hrefs one wfq nq hq oq fq sq noneq wfr nr hr fr sr noner show ?thesis by blast
qed

text \<open>
  C8 as stated fails on three pages. With two links to the same section both are marked
  after one scroll event. With a link whose target is \<open>#\<close>, that link is marked at the
  top of the page, where no section has been passed. With a link to another page that
  the markup marks \<open>active\<close>, the handler leaves that mark where it is, since it
  relabels only the links whose target starts with \<open>#\<close>, and marks the link of the
  section beside it.
\<close>

theorem scroll_spy_two_active_links:
  "snd (scroll_spy (new_page twin_links_page True)) = None
   \<and> map fst (active_links (document (fst (scroll_spy (new_page twin_links_page True))))
                (querySelectorAll twin_links_page sel_nav_menu_a_hash)) = [3, 4]
   \<and> \<not> length (active_links (document (fst (scroll_spy (new_page twin_links_page True))))
                (querySelectorAll twin_links_page sel_nav_menu_a_hash)) \<le> 1
   \<and> filter (passed 0 70) (querySelectorAll hash_link_page sel_section_id) = []
   \<and> snd (scroll_spy (new_page hash_link_page True)) = None
   \<and> map fst (active_links (document (fst (scroll_spy (new_page hash_link_page True))))
                (querySelectorAll hash_link_page sel_nav_menu_a_hash)) = [3]
   \<and> snd (scroll_spy (new_page authored_active_page True)) = None
   \<and> map (\<lambda>l. getAttribute (snd l) ''href'') (querySelectorAll authored_active_page sel_nav_menu_a)
        = [Some ''index.html'', Some ''#s1'']
   \<and> map fst (active_links (document (fst (scroll_spy (new_page authored_active_page True))))
                (querySelectorAll authored_active_page sel_nav_menu_a)) = [3, 4]
   \<and> map fst (active_links (document (fst (scroll_spy (new_page authored_active_page True))))
                (querySelectorAll authored_active_page sel_nav_menu_a_hash)) = [4]"
  by code_simp

lemma scroll_spy_without_header:
  assumes "querySelector (document p) sel_header = None"
      and "querySelectorAll (document p) sel_section_id \<noteq> []"
  shows "scroll_spy p = (p, Some TypeError)"
proof -
  from assms(2) obtain s ss where "querySelectorAll (document p) sel_section_id = s # ss"
    by (cases "querySelectorAll (document p) sel_section_id") auto
  with assms(1) show ?thesis by (simp add: scroll_spy_def)
qed

lemma scroll_spy_completes_with_header:
  "querySelector (document p) sel_header = Some header \<Longrightarrow> snd (scroll_spy p) = None"
  by (simp add: scroll_spy_def Let_def spy_sections_with_header)

lemma scroll_spy_completes_without_sections:
  "querySelectorAll (document p) sel_section_id = [] \<Longrightarrow> snd (scroll_spy p) = None"
  by (simp add: scroll_spy_def)

text \<open>
  C5. On a refactored page the header arrives with the fragment. A scroll event before
  the fragment has arrived, or after its fetch has failed, finds sections and no
  header: the handler throws a TypeError instead of skipping what is missing. Once the
  header has been injected the same event is handled without an exception.
\<close>

theorem scroll_before_header_arrives_throws:
  "querySelector (document (loaded_with_includes included_page True)) sel_header = None
   \<and> map fst (querySelectorAll (document (loaded_with_includes included_page True)) sel_section_id) = [2, 3]
   \<and> snd (run [DOMContentLoaded, Scroll 100] (loaded_with_includes included_page True)) = [TypeError]
   \<and> snd (run [DOMContentLoaded, FetchSettles 0 (FetchRejected NetworkError), Scroll 100]
             (loaded_with_includes included_page True)) = [TypeError]
   \<and> snd (run [DOMContentLoaded, FetchSettles 0 (Response 200 (BodyText header_html)), Scroll 100]
             (loaded_with_includes included_page True)) = []"
  by code_simp

section \<open>Properties of the mobile menu\<close>

lemma keydown_escape_throws_iff:
  "snd (keydown_escape key p) =
     (if key = ''Escape''
         \<and> (case querySelector (document p) sel_nav_menu of
               None \<Rightarrow> False
             | Some n \<Rightarrow> ''active'' \<in> set (classList (snd n)))
         \<and> querySelector (document p) sel_hamburger = None
      then Some TypeError else None)"
  by (simp add: keydown_escape_def Let_def split: option.splits)

lemma menu_listeners_complete:
  "snd (run_handler MobileMenuInit this key p) = None"
  "snd (run_handler (HamburgerClick h n) this key p) = None"
  "snd (run_handler (NavLinkClick h n) this key p) = None"
  by simp_all

lemma mobile_menu_init_without_nodes:
  "querySelector (document p) sel_hamburger = None \<or> querySelector (document p) sel_nav_menu = None
   \<Longrightarrow> mobile_menu_init p = p"
  by (auto simp: mobile_menu_init_def split: option.splits)

text \<open>
  C7. The initialiser and the two click listeners never throw. The Escape listener
  tests the panel and not the hamburger: with an open panel and no hamburger in the
  document it removes \<open>active\<close> from the panel and then throws a TypeError.
\<close>

theorem escape_without_hamburger_throws:
  "map_option fst (querySelector panel_only_page sel_nav_menu) = Some 1
   \<and> querySelector panel_only_page sel_hamburger = None
   \<and> snd (load_scripts [main_js] (new_page panel_only_page True)) = []
   \<and> snd (run [DOMContentLoaded] (loaded panel_only_page True)) = []
   \<and> snd (run [DOMContentLoaded, KeyDown ''Escape''] (loaded panel_only_page True)) = [TypeError]
   \<and> snd (keydown_escape ''Escape'' (new_page panel_only_page True)) = Some TypeError"
  by code_simp

text \<open>
  C1. On a refactored page the hamburger, the panel and the links are injected after
  the initialiser has run. The initialiser found no hamburger and registered nothing,
  so a click on the injected hamburger changes no class list; on a page with the header
  in its markup the same click opens the menu. The scroll handler looks its nodes up at
  every event and marks the injected link of the section scrolled to.
\<close>

theorem hamburger_injected_after_init_never_toggles:
  "map_option fst (querySelector (document (loaded_with_includes included_page True)) sel_hamburger) = None
   \<and> snd (run [DOMContentLoaded, FetchSettles 0 (Response 200 (BodyText header_html))]
             (loaded_with_includes included_page True)) = []
   \<and> map_option fst (querySelector
         (document (fst (run [DOMContentLoaded, FetchSettles 0 (Response 200 (BodyText header_html))]
                          (loaded_with_includes included_page True)))) sel_hamburger) = Some 9
   \<and> map_option fst (querySelector
         (document (fst (run [DOMContentLoaded, FetchSettles 0 (Response 200 (BodyText header_html))]
                          (loaded_with_includes included_page True)))) sel_nav_menu) = Some 6
   \<and> listeners_for (fst (run [DOMContentLoaded, FetchSettles 0 (Response 200 (BodyText header_html))]
                          (loaded_with_includes included_page True))) (Node 9) ''click'' = []
   \<and> classes_of (fst (run [DOMContentLoaded, FetchSettles 0 (Response 200 (BodyText header_html)), Click 9]
                          (loaded_with_includes included_page True))) 9 = [''hamburger'']
   \<and> classes_of (fst (run [DOMContentLoaded, FetchSettles 0 (Response 200 (BodyText header_html)), Click 9]
                          (loaded_with_includes included_page True))) 6 = [''nav-menu'']
   \<and> active_refs (fst (run [DOMContentLoaded, FetchSettles 0 (Response 200 (BodyText header_html)), Scroll 600]
                          (loaded_with_includes included_page True))) = [8]
   \<and> classes_of (fst (run [DOMContentLoaded, Click 6] (loaded three_sections True))) 6
        = [''hamburger'', ''active'']
   \<and> classes_of (fst (run [DOMContentLoaded, Click 6] (loaded three_sections True))) 2
        = [''nav-menu'', ''active'']"
  by code_simp

section \<open>Properties of the script as a whole\<close>

lemma main_js_without_observer:
  "\<not> has_IntersectionObserver p \<Longrightarrow>
   snd (main_js p) = Some ReferenceError
   \<and> listeners (fst (main_js p)) =
       listeners p @ [(Document, ''DOMContentLoaded'', MobileMenuInit), (Window, ''scroll'', ScrollSpy),
                      (Document, ''DOMContentLoaded'', LearnMoreInit),
                      (Document, ''DOMContentLoaded'', TimelineInit)]
   \<and> observer (fst (main_js p)) = observer p
   \<and> console (fst (main_js p)) = console p"
  by (simp add: main_js_def addEventListener_def Let_def)

text \<open>
  C4. Where the window has no \<open>IntersectionObserver\<close>, line 106 throws a ReferenceError
  and the script ends there: the elements are never hidden, and neither the animation
  initialiser nor the Escape listener nor the welcome messages of the lines below are
  reached. A menu opened by a click then stays open when Escape is pressed, which it
  does not where the constructor exists.
\<close>

theorem missing_observer_aborts_script:
  "snd (load_scripts [main_js] (new_page three_sections False)) = [ReferenceError]
   \<and> listeners_for (loaded three_sections False) Document ''keydown'' = []
   \<and> listeners_for (loaded three_sections True) Document ''keydown'' = [KeydownEscape]
   \<and> console (loaded three_sections False) = []
   \<and> classes_of (fst (run [DOMContentLoaded, Click 6] (loaded three_sections False))) 2
        = [''nav-menu'', ''active'']
   \<and> classes_of (fst (run [DOMContentLoaded, Click 6, KeyDown ''Escape''] (loaded three_sections False))) 2
        = [''nav-menu'', ''active'']
   \<and> classes_of (fst (run [DOMContentLoaded, Click 6, KeyDown ''Escape''] (loaded three_sections True))) 2
        = [''nav-menu'']
   \<and> opacity_of (fst (run [DOMContentLoaded] (loaded three_sections False))) 8 = []
   \<and> opacity_of (fst (run [DOMContentLoaded] (loaded three_sections True))) 8 = ''0''"
  by code_simp

lemma scroll_listener_of_main_js:
  "listeners_for (fst (main_js (new_page d io))) Window ''scroll'' = [ScrollSpy]
   \<and> listeners_for (fst (main_js (new_page d io))) Document ''scroll'' = []"
  by (simp add: main_js_def addEventListener_def Let_def listeners_for_def new_page_def)

text \<open>
  C9. main.js registers the scroll handler itself, not a debounced wrapper of it. Three
  scroll events within 20 ms give three recomputations, each visible at once in the
  marked link, and no timer is ever set.
\<close>

theorem scroll_listener_is_not_debounced:
  "listeners_for (loaded three_sections True) Window ''scroll'' = [ScrollSpy]
   \<and> active_refs (fst (run [DOMContentLoaded] (loaded three_sections True))) = []
   \<and> active_refs (fst (run [DOMContentLoaded, Scroll 600] (loaded three_sections True))) = [4]
   \<and> active_refs (fst (run [DOMContentLoaded, Scroll 600, Elapse 10, Scroll 900]
                        (loaded three_sections True))) = [5]
   \<and> active_refs (fst (run [DOMContentLoaded, Scroll 600, Elapse 10, Scroll 900, Elapse 10, Scroll 0]
                        (loaded three_sections True))) = [3]
   \<and> now (fst (run [DOMContentLoaded, Scroll 600, Elapse 10, Scroll 900, Elapse 10, Scroll 0]
                  (loaded three_sections True))) = 20
   \<and> timers (fst (run [DOMContentLoaded, Scroll 600, Elapse 10, Scroll 900, Elapse 10, Scroll 0]
                     (loaded three_sections True))) = []"
  by code_simp

text \<open>
  For comparison, the registration through \<open>debounce\<close> with a window of 100 ms: the same
  burst marks nothing, and the one recomputation runs when the last timer fires, 100 ms
  after the last event.
\<close>

lemma debounced_burst_runs_once:
  "active_refs (fst (run [Scroll 600, Elapse 10, Scroll 900, Elapse 10, Scroll 0]
                       (documented_scroll_setup (new_page three_sections True)))) = []
   \<and> timers (fst (run [Scroll 600, Elapse 10, Scroll 900, Elapse 10, Scroll 0]
                     (documented_scroll_setup (new_page three_sections True))))
        = [(3, 120, Later 0 ScrollSpy [])]
   \<and> active_refs (fst (run [Scroll 600, Elapse 10, Scroll 900, Elapse 10, Scroll 0, Elapse 99, TimerFires 3]
                       (documented_scroll_setup (new_page three_sections True)))) = []
   \<and> active_refs (fst (run [Scroll 600, Elapse 10, Scroll 900, Elapse 10, Scroll 0, Elapse 100, TimerFires 3]
                       (documented_scroll_setup (new_page three_sections True)))) = [3]"
  by code_simp

section \<open>Properties of the scroll animations\<close>

lemma reveal_as_map:
  "reveal entry d = map (\<lambda>n. if snd entry \<and> fst n = fst entry then (fst n, revealed (snd n)) else n) d"
  by (simp add: reveal_def update_element_def revealed_def)

lemma revealed_twice: "revealed (revealed e) = revealed e"
  by (simp add: revealed_def)

lemma fold_reveal:
  "fold reveal entries d =
     map (\<lambda>n. if (fst n, True) \<in> set entries then (fst n, revealed (snd n)) else n) d"
proof (induction entries arbitrary: d)
  case Nil
  then show ?case by simp
next
  case (Cons entry entries)
  obtain r b where entry: "entry = (r, b)" by (cases entry)
  have "fold reveal (entry # entries) d = fold reveal entries (reveal entry d)"
    by simp
  also have "\<dots> = map (\<lambda>n. if (fst n, True) \<in> set entries then (fst n, revealed (snd n)) else n)
                     (reveal entry d)"
    by (rule Cons.IH)
  also have "\<dots> = map (\<lambda>n. if (fst n, True) \<in> set (entry # entries)
                            then (fst n, revealed (snd n)) else n) d"
    unfolding reveal_as_map by (auto simp: revealed_twice entry)
  finally show ?case .
qed

lemma fold_reveal_twice:
  "fold reveal entries (fold reveal entries d) = fold reveal entries d"
  by (simp add: fold_reveal revealed_twice)

lemma map_of_fold_reveal:
  "map_of (fold reveal entries d) r =
     (if (r, True) \<in> set entries then map_option revealed (map_of d r) else map_of d r)"
  unfolding fold_reveal by (induction d) auto


lemma animate_element_observed:
  "observer p = Some targets \<Longrightarrow>
   animate_element el p =
     (p\<lparr>document := update_element (fst el) hidden (document p),
        observer := Some (observe el targets)\<rparr>, None)"
proof -
  have h: "(\<lambda>e. e\<lparr>style_opacity := ''0'', style_transform := ''translateY(20px)'',
                   style_transition := ''opacity 0.6s ease, transform 0.6s ease''\<rparr>) = hidden"
    by (rule ext) (simp add: hidden_def)
  assume "observer p = Some targets"
  then show ?thesis
    by (simp add: animate_element_def observe_def Let_def h)
qed

lemma forEach_animate_element:
  "observer p = Some targets \<Longrightarrow>
   forEach animate_element els p =
     (p\<lparr>document := fold (\<lambda>el. update_element (fst el) hidden) els (document p),
        observer := Some (fold observe els targets)\<rparr>, None)"
proof (induction els arbitrary: p targets)
  case Nil
  then show ?case by simp
next
  case (Cons el els)
  let ?p1 = "p\<lparr>document := update_element (fst el) hidden (document p),
               observer := Some (observe el targets)\<rparr>"
  have o1: "observer ?p1 = Some (observe el targets)" by simp
  show ?case
    by (simp add: animate_element_observed[OF Cons.prems] Cons.IH[OF o1])
qed

lemma set_fold_observe: "set (fold observe els targets) = set targets \<union> fst ` set els"
  by (induction els arbitrary: targets) (auto simp: observe_def)

lemma hidden_twice: "hidden (hidden e) = hidden e"
  by (simp add: hidden_def)

lemma map_of_fold_hidden:
  "map_of (fold (\<lambda>el. update_element (fst el) hidden) els d) r =
     (if r \<in> fst ` set els then map_option hidden (map_of d r) else map_of d r)"
proof (induction els arbitrary: d)
  case Nil
  then show ?case by simp
next
  case (Cons el els)
  show ?case
    by (cases "map_of d r") (auto simp: Cons.IH map_of_update_element hidden_twice)
qed

text \<open>
  C6, as amended. The callback never changes the set of observed targets, so every
  later report for the same element reaches it again. Each intersecting entry sets
  opacity \<open>1\<close> and transform \<open>translateY(0)\<close> on its target and leaves the rest of the
  element as it is; running the callback twice on the same entries gives what running
  it once gives. The transition of 0.6 s is set by the initialiser, which hides every
  matched element and observes it, and completes when the observer exists.
\<close>

theorem reveal_repeats_on_every_intersection:
  "observer (observer_callback entries p) = observer p
   \<and> observer (fst (fire (Intersection entries) p)) = observer p
   \<and> observer_callback entries (observer_callback entries p) = observer_callback entries p
   \<and> map_of (document (observer_callback entries p)) r =
        (if (r, True) \<in> set entries then map_option revealed (map_of (document p) r)
         else map_of (document p) r)
   \<and> (observer p = Some targets \<and> distinct (map fst (document p))
        \<and> el \<in> set (querySelectorAll (document p) sel_animated)
       \<longrightarrow> snd (animations_init p) = None
           \<and> map_of (document (fst (animations_init p))) (fst el) = Some (hidden (snd el))
           \<and> (\<exists>targets'. observer (fst (animations_init p)) = Some targets' \<and> fst el \<in> set targets'))"
proof -
  have a: "observer (observer_callback entries p) = observer p"
    by (simp add: observer_callback_def)
  have b: "observer (fst (fire (Intersection entries) p)) = observer p"
    by (simp add: observer_callback_def Let_def split: option.splits)
  have c: "observer_callback entries (observer_callback entries p) = observer_callback entries p"
    by (simp add: observer_callback_def fold_reveal_twice)
  have d: "map_of (document (observer_callback entries p)) r =
        (if (r, True) \<in> set entries then map_option revealed (map_of (document p) r)
         else map_of (document p) r)"
    by (simp add: observer_callback_def map_of_fold_reveal)
  have e: "snd (animations_init p) = None
           \<and> map_of (document (fst (animations_init p))) (fst el) = Some (hidden (snd el))
           \<and> (\<exists>targets'. observer (fst (animations_init p)) = Some targets' \<and> fst el \<in> set targets')"
    if o: "observer p = Some targets" and wf: "distinct (map fst (document p))"
      and el: "el \<in> set (querySelectorAll (document p) sel_animated)"
  proof -
    from el have "el \<in> set (document p)" by (simp add: querySelectorAll_def)
    then have "(fst el, snd el) \<in> set (document p)" by simp
    with wf have m: "map_of (document p) (fst el) = Some (snd el)"
      by (rule map_of_is_SomeI)
    from el have i: "fst el \<in> fst ` set (querySelectorAll (document p) sel_animated)" by simp
    show ?thesis
      using i m by (simp add: animations_init_def forEach_animate_element[OF o]
          map_of_fold_hidden set_fold_observe)
  qed
  from a b c d e show ?thesis by blast
qed

theorem reveal_repeats_on_every_intersection_witness:
  "observer (loaded three_sections True) = Some []
   \<and> distinct (map fst (document (loaded three_sections True)))
   \<and> map fst (querySelectorAll (document (loaded three_sections True)) sel_animated) = [8, 12]
   \<and> snd (animations_init (loaded three_sections True)) = None
   \<and> transition_of (fst (animations_init (loaded three_sections True))) 12
        = ''opacity 0.6s ease, transform 0.6s ease''
   \<and> opacity_of (fst (animations_init (loaded three_sections True))) 12 = ''0''
   \<and> observer (fst (animations_init (loaded three_sections True))) = Some [8, 12]
   \<and> opacity_of (observer_callback [(12, True)] (fst (animations_init (loaded three_sections True)))) 12 = ''1''
   \<and> transform_of (observer_callback [(12, True)] (fst (animations_init (loaded three_sections True)))) 12
        = ''translateY(0)''
   \<and> observer (observer_callback [(12, True)] (fst (animations_init (loaded three_sections True))))
        = Some [8, 12]"
proof -
  let ?p = "loaded three_sections True"
  let ?q = "fst (animations_init ?p)"
  have o: "observer ?p = Some []" by code_simp
  have wf: "distinct (map fst (document ?p))" by code_simp
  have els: "map fst (querySelectorAll (document ?p) sel_animated) = [8, 12]" by code_simp
  have el: "(12, the (map_of (document ?p) 12)) \<in> set (querySelectorAll (document ?p) sel_animated)"
    by code_simp
  have oq: "observer ?q = Some [8, 12]" by code_simp
  have tq: "transition_of ?q 12 = ''opacity 0.6s ease, transform 0.6s ease''" by code_simp
  have hq: "opacity_of ?q 12 = ''0''" by code_simp
  have mq: "map_of (document ?q) 12 \<noteq> None" by code_simp
  from reveal_repeats_on_every_intersection[of "[(12, True)]" ?q 12 "[]" "(12, the (map_of (document ?p) 12))"]
  have r1: "observer (observer_callback [(12, True)] ?q) = observer ?q"
    and r2: "map_of (document (observer_callback [(12, True)] ?q)) 12 = map_option revealed (map_of (document ?q) 12)"
    by simp_all
  from reveal_repeats_on_every_intersection[of "[(12, True)]" ?p 12 "[]" "(12, the (map_of (document ?p) 12))"]
    o wf el
  have r3: "snd (animations_init ?p) = None" by simp
  from r2 mq have op: "opacity_of (observer_callback [(12, True)] ?q) 12 = ''1''"
    and tr: "transform_of (observer_callback [(12, True)] ?q) 12 = ''translateY(0)''"
    by (auto simp: opacity_of_def transform_of_def revealed_def)
  from o wf els r3 tq hq oq op tr r1 show ?thesis by simp
qed

text \<open>
  C6 as stated fails: after its first intersection the timeline item is still among
  the observed targets, and a later intersection is not ignored. It overwrites the
  transform that a click on the item has set in between.
\<close>

theorem later_intersection_still_writes:
  "observer (fst (run [DOMContentLoaded, Intersection [(12, True)]] (loaded three_sections True)))
     = Some [8, 12]
   \<and> transform_of (fst (run [DOMContentLoaded, Intersection [(12, True)]]
                          (loaded three_sections True))) 12 = ''translateY(0)''
   \<and> transform_of (fst (run [DOMContentLoaded, Intersection [(12, True)], Click 12]
                          (loaded three_sections True))) 12 = ''scale(1.02)''
   \<and> transform_of (fst (run [DOMContentLoaded, Intersection [(12, True)], Click 12, Intersection [(12, True)]]
                          (loaded three_sections True))) 12 = ''translateY(0)''"
  by code_simp

section \<open>Properties of the fragment loader\<close>

lemma same_ref_same_node:
  assumes "distinct (map fst d)" "n \<in> set d" "(t, te) \<in> set d" "fst n = t"
  shows "n = (t, te)"
proof -
  from assms(2,4) have "(t, snd n) \<in> set d" by (metis prod.collapse)
  with assms(1) have "map_of d t = Some (snd n)" by (rule map_of_is_SomeI)
  moreover from assms(1,3) have "map_of d t = Some te" by (rule map_of_is_SomeI)
  ultimately show ?thesis using assms(4) by (metis option.inject prod.collapse)
qed

lemma concat_single_key:
  "distinct (map fst d) \<Longrightarrow> (t, te) \<in> set d \<Longrightarrow>
   concat (map (\<lambda>n. if fst n = t then X n else []) d) = X (t, te)"
proof (induction d)
  case Nil
  then show ?case by simp
next
  case (Cons n d)
  show ?case
  proof (cases "fst n = t")
    case True
    with Cons.prems have n: "n = (t, te)"
      by (metis distinct.simps(2) fst_conv image_eqI list.simps(9) set_ConsD set_map)
    from Cons.prems True have "t \<notin> fst ` set d" by auto
    then have "concat (map (\<lambda>n. if fst n = t then X n else []) d) = []"
      by (induction d) auto
    with n show ?thesis by simp
  next
    case False
    with Cons.prems Cons.IH show ?thesis by auto
  qed
qed

lemma subtree_set_innerHTML:
  assumes "distinct (map fst d)" "(t, te) \<in> set d" "t \<notin> set (ancestors te)"
  shows "subtree t (set_innerHTML t h base d) = map (adopt t (ancestors te) base) h"
proof -
  have "subtree t (set_innerHTML t h base d) =
          concat (map (\<lambda>n. if fst n = t
                            then filter (\<lambda>m. t \<in> set (ancestors (snd m)))
                                   (n # map (adopt t (ancestors (snd n)) base) h)
                            else []) d)"
    unfolding subtree_def set_innerHTML_def filter_concat map_map
    by (rule arg_cong[where f = concat], rule map_cong) auto
  also have "\<dots> = filter (\<lambda>m. t \<in> set (ancestors (snd m)))
                      ((t, te) # map (adopt t (ancestors te) base) h)"
    using concat_single_key[OF assms(1,2), of "\<lambda>n. filter (\<lambda>m. t \<in> set (ancestors (snd m)))
                                   (n # map (adopt t (ancestors (snd n)) base) h)"]
    by simp
  also have "\<dots> = map (adopt t (ancestors te) base) h"
    using assms(3) by (simp add: filter_map o_def adopt_def)
  finally show ?thesis .
qed

lemma outside_set_innerHTML:
  assumes "distinct (map fst d)" "(t, te) \<in> set d" "t \<notin> set (ancestors te)"
  shows "outside t (set_innerHTML t h base d) = outside t d"
proof -
  have key: "filter (\<lambda>m. t \<notin> set (ancestors (snd m)))
               (if fst n = t then n # map (adopt t (ancestors (snd n)) base) h
                else if t \<in> set (ancestors (snd n)) then [] else [n])
             = (if t \<notin> set (ancestors (snd n)) then [n] else [])" if "n \<in> set d" for n
  proof (cases "fst n = t")
    case True
    with that assms(1,2) have "n = (t, te)"
      by (simp add: same_ref_same_node)
    with assms(3) show ?thesis by (simp add: filter_map o_def adopt_def)
  next
    case False
    then show ?thesis by simp
  qed
  have "outside t (set_innerHTML t h base d) =
          concat (map (\<lambda>n. if t \<notin> set (ancestors (snd n)) then [n] else []) d)"
    unfolding outside_def set_innerHTML_def filter_concat map_map
    by (rule arg_cong[where f = concat], rule map_cong) (simp_all add: key)
  also have "\<dots> = outside t d"
    unfolding outside_def by (induction d) auto
  finally show ?thesis .
qed

text \<open>
  The counter stays above every reference of the document, a load never lowers it, and
  a node that a load brings into the document has a reference at or above the counter
  of before: it never gets the reference of a node that was in the document earlier.
\<close>

lemma below_ref_bound: "n \<in> set ns \<Longrightarrow> fst n < ref_bound ns"
  by (induction ns) (auto simp: ref_bound_def)

lemma new_page_references_counted:
  "n \<in> set (document (new_page d io)) \<Longrightarrow> fst n < next_ref (new_page d io)"
  by (simp add: new_page_def below_ref_bound)

lemma set_innerHTML_members:
  assumes "n \<in> set (set_innerHTML t h base d)"
  shows "n \<in> set d \<or> (\<exists>m\<in>set h. fst n = base + fst m)"
proof -
  from assms have "\<exists>x\<in>set d. n \<in> set (if fst x = t then x # map (adopt t (ancestors (snd x)) base) h
                       else if t \<in> set (ancestors (snd x)) then [] else [x])"
    unfolding set_innerHTML_def set_concat set_map by blast
  then obtain x where x: "x \<in> set d"
    and n: "n \<in> set (if fst x = t then x # map (adopt t (ancestors (snd x)) base) h
                       else if t \<in> set (ancestors (snd x)) then [] else [x])"
    by blast
  show ?thesis
  proof (cases "n = x")
    case True
    with x show ?thesis by simp
  next
    case False
    with n have "n \<in> set (map (adopt t (ancestors (snd x)) base) h)"
      by (auto split: if_splits)
    then obtain m where "m \<in> set h" "n = adopt t (ancestors (snd x)) base m" by auto
    then show ?thesis by (auto simp: adopt_def)
  qed
qed

lemma loadHTML_references_counted:
  assumes counted: "\<And>n. n \<in> set (document p) \<Longrightarrow> fst n < next_ref p"
      and n: "n \<in> set (document (fst (loadHTML url sel outcome p)))"
  shows "fst n < next_ref (fst (loadHTML url sel outcome p))
         \<and> next_ref p \<le> next_ref (fst (loadHTML url sel outcome p))
         \<and> (n \<in> set (document p) \<or> next_ref p \<le> fst n)"
proof (cases "\<exists>status h target. outcome = Response status (BodyText h)
                \<and> querySelector (document p) sel = Some target")
  case False
  then have "document (fst (loadHTML url sel outcome p)) = document p"
    and "next_ref (fst (loadHTML url sel outcome p)) = next_ref p"
    by (auto simp: loadHTML_def loadHTML_try_def split: fetch_outcome.splits body.splits option.splits)
  with counted n show ?thesis by simp
next
  case True
  then obtain status h target where o: "outcome = Response status (BodyText h)"
    and t: "querySelector (document p) sel = Some target" by blast
  have d: "document (fst (loadHTML url sel outcome p))
             = set_innerHTML (fst target) h (next_ref p) (document p)"
    and r: "next_ref (fst (loadHTML url sel outcome p)) = next_ref p + ref_bound h"
    by (simp_all add: loadHTML_def loadHTML_try_def o t)
  from n d have "n \<in> set (document p) \<or> (\<exists>m\<in>set h. fst n = next_ref p + fst m)"
    by (simp add: set_innerHTML_members)
  then show ?thesis
  proof
    assume "n \<in> set (document p)"
    with counted[of n] r show ?thesis by simp
  next
    assume "\<exists>m\<in>set h. fst n = next_ref p + fst m"
    then obtain m where "m \<in> set h" "fst n = next_ref p + fst m" by blast
    with below_ref_bound[of m h] r show ?thesis by simp
  qed
qed

text \<open>
  References are not given twice. The header placeholder is emptied by an empty
  fragment, which removes the authored hamburger 3 and panel 4; the footer fragment
  then gets the references 6 and 7, and clicks on the new nodes, or on the references
  of the removed ones, reach no listener.
\<close>

lemma references_are_not_reused:
  "map fst (document (fst (run [DOMContentLoaded] (loaded_with_includes authored_menu_page True))))
     = [1, 3, 4, 2]
   \<and> listeners_for (fst (run [DOMContentLoaded] (loaded_with_includes authored_menu_page True)))
        (Node 3) ''click'' = [HamburgerClick 3 4]
   \<and> map fst (document (fst (run [DOMContentLoaded, FetchSettles 0 (Response 200 (BodyText [])),
                                   FetchSettles 0 (Response 200 (BodyText footer_html))]
                                (loaded_with_includes authored_menu_page True))))
     = [1, 2, 6, 7]
   \<and> map (\<lambda>n. classList (snd n))
        (document (fst (run [DOMContentLoaded, FetchSettles 0 (Response 200 (BodyText [])),
                             FetchSettles 0 (Response 200 (BodyText footer_html)),
                             Click 6, Click 7, Click 3, Click 4]
                          (loaded_with_includes authored_menu_page True))))
     = [[], [], [''footer''], []]"
  by code_simp

lemma adopted_references_start_at_base:
  "n \<in> set (map (adopt t tas base) h) \<Longrightarrow> base \<le> fst n"
  by (auto simp: adopt_def)

text \<open>
  C3. When the fetch rejects, or the response arrives and reading its body rejects, the
  exception is caught inside \<open>loadHTML\<close>: the promise it returns fulfils, the console
  gets one warning whose text contains the URL, and nothing else of the page changes.
  Settling a pending fetch this way reports no exception, leaves the document and the
  registered listeners as they are, and the listener that starts the two loads does
  not throw.
\<close>

theorem loadHTML_catches_rejection:
  "loadHTML url targetSelector (FetchRejected e) p =
     (p\<lparr>console := console p @ [Warn (''Could not load '' @ url @ '':'') e]\<rparr>, None)
   \<and> loadHTML url targetSelector (Response status (BodyRejected e)) p =
     (p\<lparr>console := console p @ [Warn (''Could not load '' @ url @ '':'') e]\<rparr>, None)
   \<and> snd (fire (FetchSettles i (FetchRejected e)) p) = []
   \<and> document (fst (fire (FetchSettles i (FetchRejected e)) p)) = document p
   \<and> listeners (fst (fire (FetchSettles i (FetchRejected e)) p)) = listeners p
   \<and> snd (fire (FetchSettles i (Response status (BodyRejected e))) p) = []
   \<and> document (fst (fire (FetchSettles i (Response status (BodyRejected e))) p)) = document p
   \<and> listeners (fst (fire (FetchSettles i (Response status (BodyRejected e))) p)) = listeners p
   \<and> snd (run_handler IncludesInit this key p) = None"
  by (simp add: loadHTML_def loadHTML_try_def thrown_def Let_def)

text \<open>
  Both loads of a refactored page failing, one at the fetch and one at the body: no
  exception is reported, the document is the one that was parsed, the console holds
  the two warnings, and all listeners of main.js are registered.
\<close>

lemma fetch_failure_leaves_controllers_running:
  "snd (run [DOMContentLoaded, FetchSettles 0 (FetchRejected NetworkError),
             FetchSettles 0 (Response 200 (BodyRejected NetworkError))]
          (loaded_with_includes fallback_page True)) = []
   \<and> document (fst (run [DOMContentLoaded, FetchSettles 0 (FetchRejected NetworkError),
                         FetchSettles 0 (Response 200 (BodyRejected NetworkError))]
                      (loaded_with_includes fallback_page True))) = fallback_page
   \<and> console (fst (run [DOMContentLoaded, FetchSettles 0 (FetchRejected NetworkError),
                        FetchSettles 0 (Response 200 (BodyRejected NetworkError))]
                     (loaded_with_includes fallback_page True)))
       = console (loaded_with_includes fallback_page True)
         @ [Warn ''Could not load ../includes/header.html:'' NetworkError,
            Warn ''Could not load ../includes/footer.html:'' NetworkError]
   \<and> map (\<lambda>l. snd (snd l))
        (listeners (fst (run [DOMContentLoaded, FetchSettles 0 (FetchRejected NetworkError),
                              FetchSettles 0 (Response 200 (BodyRejected NetworkError))]
                           (loaded_with_includes fallback_page True))))
       = [IncludesInit, MobileMenuInit, ScrollSpy, LearnMoreInit, TimelineInit, AnimationsInit,
          KeydownEscape]"
  by code_simp

text \<open>
  C10. The status of a response is never read: whenever the body can be read and the
  target exists, the body becomes the content of the target. In a document with
  distinct references the nodes below the target are then exactly the parsed nodes of
  the body, and the nodes outside the target's subtree are the ones that were there.
\<close>

theorem loadHTML_injects_any_response:
  assumes "querySelector (document p) targetSelector = Some target"
  shows "loadHTML url targetSelector (Response status (BodyText h)) p =
           (p\<lparr>document := set_innerHTML (fst target) h (next_ref p) (document p),
              next_ref := next_ref p + ref_bound h\<rparr>, None)
         \<and> (distinct (map fst (document p)) \<and> fst target \<notin> set (ancestors (snd target))
            \<longrightarrow> subtree (fst target)
                  (document (fst (loadHTML url targetSelector (Response status (BodyText h)) p)))
                = map (adopt (fst target) (ancestors (snd target)) (next_ref p)) h
              \<and> outside (fst target)
                  (document (fst (loadHTML url targetSelector (Response status (BodyText h)) p)))
                = outside (fst target) (document p))"
proof -
  have l: "loadHTML url targetSelector (Response status (BodyText h)) p =
           (p\<lparr>document := set_innerHTML (fst target) h (next_ref p) (document p),
              next_ref := next_ref p + ref_bound h\<rparr>, None)"
    using assms by (simp add: loadHTML_def loadHTML_try_def)
  from assms have "target \<in> set (document p)"
    by (auto simp: querySelector_def find_Some_iff)
  then have m: "(fst target, snd target) \<in> set (document p)" by simp
  show ?thesis
    using subtree_set_innerHTML[OF _ m] outside_set_innerHTML[OF _ m] by (simp add: l)
qed

text \<open>
  A response with status 404: the authored fallback paragraph of the placeholder is
  replaced by the heading of the server's error page.
\<close>

theorem loadHTML_injects_any_response_witness:
  "querySelector (document (new_page fallback_page True)) (sel_include ''header'')
     = Some (hd fallback_page)
   \<and> distinct (map fst fallback_page)
   \<and> fst (hd fallback_page) \<notin> set (ancestors (snd (hd fallback_page)))
   \<and> map (\<lambda>n. (localName (snd n), textContent (snd n))) (subtree 1 fallback_page)
        = [(''p'', ''AltHistAI'')]
   \<and> snd (loadHTML ''../includes/header.html'' (sel_include ''header'')
             (Response 404 (BodyText not_found_html)) (new_page fallback_page True)) = None
   \<and> map (\<lambda>n. (localName (snd n), textContent (snd n)))
        (subtree 1 (document (fst (loadHTML ''../includes/header.html'' (sel_include ''header'')
                                     (Response 404 (BodyText not_found_html))
                                     (new_page fallback_page True)))))
        = [(''h1'', ''404 Not Found'')]"
proof -
  let ?p = "new_page fallback_page True"
  have d: "document ?p = fallback_page" by (simp add: new_page_def)
  have q: "querySelector (document ?p) (sel_include ''header'') = Some (hd fallback_page)"
    by code_simp
  have wf: "distinct (map fst fallback_page)" by code_simp
  have a: "fst (hd fallback_page) \<notin> set (ancestors (snd (hd fallback_page)))" by code_simp
  have t: "fst (hd fallback_page) = 1" by code_simp
  have before: "map (\<lambda>n. (localName (snd n), textContent (snd n))) (subtree 1 fallback_page)
        = [(''p'', ''AltHistAI'')]" by code_simp
  have new: "map (\<lambda>n. (localName (snd n), textContent (snd n)))
               (map (adopt (fst (hd fallback_page)) (ancestors (snd (hd fallback_page)))
                      (next_ref ?p)) not_found_html)
             = [(''h1'', ''404 Not Found'')]" by code_simp
  have wf': "distinct (map fst (document ?p))" using wf d by simp
  note T = loadHTML_injects_any_response[OF q, of "''../includes/header.html''" 404 not_found_html]
  from T have r0: "loadHTML ''../includes/header.html'' (sel_include ''header'')
             (Response 404 (BodyText not_found_html)) ?p =
           (?p\<lparr>document := set_innerHTML (fst (hd fallback_page)) not_found_html (next_ref ?p)
                             (document ?p),
               next_ref := next_ref ?p + ref_bound not_found_html\<rparr>, None)"
    by (rule conjunct1)
  then have r1: "snd (loadHTML ''../includes/header.html'' (sel_include ''header'')
             (Response 404 (BodyText not_found_html)) ?p) = None"
    by simp
  from T wf' a
  have "subtree (fst (hd fallback_page))
          (document (fst (loadHTML ''../includes/header.html'' (sel_include ''header'')
                                     (Response 404 (BodyText not_found_html)) ?p)))
        = map (adopt (fst (hd fallback_page)) (ancestors (snd (hd fallback_page)))
                      (next_ref ?p)) not_found_html"
    by blast
  then have r2: "subtree 1
          (document (fst (loadHTML ''../includes/header.html'' (sel_include ''header'')
                                     (Response 404 (BodyText not_found_html)) ?p)))
        = map (adopt (fst (hd fallback_page)) (ancestors (snd (hd fallback_page)))
                      (next_ref ?p)) not_found_html"
    unfolding t .
  from q wf a before r1 new show ?thesis unfolding r2 by blast
qed

end
